theory Spec2Isabelle
  imports Complex_Main "HOL-Library.Sublist"
begin

section \<open>JavaScript values used by the helpers\<close>

text \<open>
  Strings are lists of code units. A \<^typ>\<open>char\<close> stands for a UTF-16 code unit below 256
  (the Latin-1 range); the helpers only look at code units through equality, case folding,
  white space, digits and letters.

  Numbers are IEEE doubles in the source. The model keeps the three special values the
  helpers can produce (\<open>NaN\<close>, \<open>Infinity\<close>, \<open>-Infinity\<close>) and represents every other
  number by the exact rational it denotes. Every quotient the helpers compare is a quotient
  of two array or string lengths, and such quotients are ordered by double arithmetic as
  they are by exact arithmetic as long as the lengths stay below \<open>2^26\<close>.
\<close>

datatype number = NaN | Fin rat | PosInf | NegInf

fun js_gt :: "number \<Rightarrow> number \<Rightarrow> bool" where
  "js_gt NaN _ = False"
| "js_gt _ NaN = False"
| "js_gt (Fin a) (Fin b) = (b < a)"
| "js_gt PosInf PosInf = False"
| "js_gt PosInf _ = True"
| "js_gt _ PosInf = False"
| "js_gt NegInf _ = False"
| "js_gt (Fin a) NegInf = True"

definition js_lt :: "number \<Rightarrow> number \<Rightarrow> bool" where
  "js_lt a b = js_gt b a"

fun js_ge :: "number \<Rightarrow> number \<Rightarrow> bool" where
  "js_ge NaN _ = False"
| "js_ge _ NaN = False"
| "js_ge a b = (\<not> js_gt b a)"

definition js_le :: "number \<Rightarrow> number \<Rightarrow> bool" where
  "js_le a b = js_ge b a"

definition isNaN :: "number \<Rightarrow> bool" where
  "isNaN n = (n = NaN)"

text \<open>
  Arithmetic. The sign of a zero is not kept: every divisor below is a length or a count,
  hence never \<open>-0\<close>.
\<close>

fun js_neg :: "number \<Rightarrow> number" where
  "js_neg NaN = NaN"
| "js_neg (Fin r) = Fin (- r)"
| "js_neg PosInf = NegInf"
| "js_neg NegInf = PosInf"

fun js_add :: "number \<Rightarrow> number \<Rightarrow> number" where
  "js_add NaN _ = NaN"
| "js_add _ NaN = NaN"
| "js_add (Fin a) (Fin b) = Fin (a + b)"
| "js_add PosInf NegInf = NaN"
| "js_add NegInf PosInf = NaN"
| "js_add PosInf _ = PosInf"
| "js_add NegInf _ = NegInf"
| "js_add (Fin a) b = b"

definition js_sub :: "number \<Rightarrow> number \<Rightarrow> number" where
  "js_sub a b = js_add a (js_neg b)"

fun js_div :: "number \<Rightarrow> number \<Rightarrow> number" where
  "js_div NaN _ = NaN"
| "js_div _ NaN = NaN"
| "js_div (Fin a) (Fin b) =
     (if b = 0 then (if a = 0 then NaN else if 0 < a then PosInf else NegInf)
      else Fin (a / b))"
| "js_div (Fin a) _ = Fin 0"
| "js_div PosInf (Fin b) = (if 0 \<le> b then PosInf else NegInf)"
| "js_div NegInf (Fin b) = (if 0 \<le> b then NegInf else PosInf)"
| "js_div _ _ = NaN"

text \<open>A length or a count as a number.\<close>

definition num :: "nat \<Rightarrow> number" where
  "num n = Fin (of_nat n)"

subsection \<open>Strings\<close>

definition code_unit :: "char \<Rightarrow> nat" where
  "code_unit c = of_char c"

text \<open>White space as \<open>\\s\<close> and \<open>trim\<close> see it, within Latin-1.\<close>

definition is_space :: "char \<Rightarrow> bool" where
  "is_space c = (code_unit c \<in> {9, 10, 11, 12, 13, 32, 160})"

definition is_digit :: "char \<Rightarrow> bool" where
  "is_digit c = (48 \<le> code_unit c \<and> code_unit c \<le> 57)"

definition is_lower_az :: "char \<Rightarrow> bool" where
  "is_lower_az c = (97 \<le> code_unit c \<and> code_unit c \<le> 122)"

definition lower_char :: "char \<Rightarrow> char" where
  "lower_char c =
     (let n = code_unit c in
      if (65 \<le> n \<and> n \<le> 90) \<or> (192 \<le> n \<and> n \<le> 222 \<and> n \<noteq> 215)
      then char_of (n + 32) else c)"

definition toLowerCase :: "string \<Rightarrow> string" where
  "toLowerCase s = map lower_char s"

definition trimStart :: "string \<Rightarrow> string" where
  "trimStart s = dropWhile is_space s"

definition trim :: "string \<Rightarrow> string" where
  "trim s = rev (dropWhile is_space (rev (dropWhile is_space s)))"

text \<open>\<open>s.includes(t)\<close>: \<open>t\<close> occurs in \<open>s\<close> as a contiguous block.\<close>

fun str_includes :: "string \<Rightarrow> string \<Rightarrow> bool" where
  "str_includes [] t = (t = [])"
| "str_includes (c # s) t = (prefix t (c # s) \<or> str_includes s t)"

text \<open>\<open>parts.join(sep)\<close> on an array of strings.\<close>

fun join :: "string \<Rightarrow> string list \<Rightarrow> string" where
  "join sep [] = []"
| "join sep [x] = x"
| "join sep (x # y # zs) = x @ sep @ join sep (y # zs)"

text \<open>\<open>s.split(',')\<close>: the pieces between commas; an empty string gives one empty piece.\<close>

fun split_comma :: "string \<Rightarrow> string list" where
  "split_comma [] = [[]]"
| "split_comma (c # s) =
     (if c = CHR '','' then [] # split_comma s
      else (case split_comma s of
              [] \<Rightarrow> [[c]]
            | p # ps \<Rightarrow> (c # p) # ps))"

subsection \<open>Parsing numbers\<close>

definition digit_val :: "char \<Rightarrow> nat" where
  "digit_val c = code_unit c - 48"

definition digits_val :: "string \<Rightarrow> nat" where
  "digits_val ds = foldl (\<lambda>a c. 10 * a + digit_val c) 0 ds"

text \<open>The value of a code unit as a digit of a radix up to 16, if it is one.\<close>

definition radix_digit :: "nat \<Rightarrow> char \<Rightarrow> nat option" where
  "radix_digit r c =
     (let n = code_unit c;
          v = (if 48 \<le> n \<and> n \<le> 57 then Some (n - 48)
               else if 97 \<le> n \<and> n \<le> 102 then Some (n - 87)
               else if 65 \<le> n \<and> n \<le> 70 then Some (n - 55)
               else None)
      in case v of None \<Rightarrow> None | Some d \<Rightarrow> if d < r then Some d else None)"

definition radix_val :: "nat \<Rightarrow> string \<Rightarrow> nat" where
  "radix_val r ds =
     foldl (\<lambda>a c. r * a + (case radix_digit r c of None \<Rightarrow> 0 | Some d \<Rightarrow> d)) 0 ds"

text \<open>
  \<open>parseInt(s)\<close> with no radix: leading white space and a sign are skipped, a \<open>0x\<close> prefix
  selects radix 16, and the longest run of digits is read; no digit gives \<open>NaN\<close>.
\<close>

definition parseInt :: "string \<Rightarrow> number" where
  "parseInt s =
     (let s1 = trimStart s;
          neg = (case s1 of [] \<Rightarrow> False | c # _ \<Rightarrow> c = CHR ''-'');
          s2 = (case s1 of [] \<Rightarrow> s1
                | c # r \<Rightarrow> if c = CHR ''-'' \<or> c = CHR ''+'' then r else s1);
          hex = (case s2 of
                   c # x # _ \<Rightarrow> c = CHR ''0'' \<and> (x = CHR ''x'' \<or> x = CHR ''X'')
                 | _ \<Rightarrow> False);
          radix = (if hex then 16 else 10);
          s3 = (if hex then drop 2 s2 else s2);
          z = takeWhile (\<lambda>c. radix_digit radix c \<noteq> None) s3
      in if z = [] then NaN
         else Fin (of_int ((if neg then - 1 else 1) * int (radix_val radix z))))"

text \<open>
  \<open>Number(s)\<close> on a string: the trimmed string must be empty (giving \<open>0\<close>), a signed
  decimal literal, a signed \<open>Infinity\<close>, or an unsigned \<open>0x\<close>, \<open>0o\<close> or \<open>0b\<close> literal.
\<close>

definition unsigned_decimal :: "string \<Rightarrow> rat option" where
  "unsigned_decimal u =
     (let d1 = takeWhile is_digit u; r1 = dropWhile is_digit u;
          dot = (case r1 of [] \<Rightarrow> False | c # _ \<Rightarrow> c = CHR ''.'');
          d2 = (if dot then takeWhile is_digit (tl r1) else []);
          r2 = (if dot then dropWhile is_digit (tl r1) else r1);
          mant = of_nat (digits_val d1) + of_nat (digits_val d2) / 10 ^ length d2
      in if d1 = [] \<and> d2 = [] then None
         else (case r2 of
                 [] \<Rightarrow> Some mant
               | e # r3 \<Rightarrow>
                   if e = CHR ''e'' \<or> e = CHR ''E'' then
                     (let neg = (case r3 of [] \<Rightarrow> False | c # _ \<Rightarrow> c = CHR ''-'');
                          r4 = (case r3 of [] \<Rightarrow> r3
                                | c # r \<Rightarrow> if c = CHR ''-'' \<or> c = CHR ''+'' then r else r3)
                      in if r4 \<noteq> [] \<and> list_all is_digit r4
                         then Some (if neg then mant / 10 ^ digits_val r4
                                    else mant * 10 ^ digits_val r4)
                         else None)
                   else None))"

definition decimal_literal :: "string \<Rightarrow> number" where
  "decimal_literal t =
     (let neg = (case t of [] \<Rightarrow> False | c # _ \<Rightarrow> c = CHR ''-'');
          u = (case t of [] \<Rightarrow> t
               | c # r \<Rightarrow> if c = CHR ''-'' \<or> c = CHR ''+'' then r else t)
      in if u = ''Infinity'' then (if neg then NegInf else PosInf)
         else (case unsigned_decimal u of
                 None \<Rightarrow> NaN
               | Some r \<Rightarrow> Fin (if neg then - r else r)))"

definition radix_literal :: "nat \<Rightarrow> string \<Rightarrow> number" where
  "radix_literal r ds =
     (if ds \<noteq> [] \<and> list_all (\<lambda>c. radix_digit r c \<noteq> None) ds
      then Fin (of_nat (radix_val r ds)) else NaN)"

definition string_to_number :: "string \<Rightarrow> number" where
  "string_to_number s =
     (let t = trim s in
      if t = [] then Fin 0
      else (case t of
              c # x # r \<Rightarrow>
                if c = CHR ''0'' \<and> (x = CHR ''x'' \<or> x = CHR ''X'') then radix_literal 16 r
                else if c = CHR ''0'' \<and> (x = CHR ''o'' \<or> x = CHR ''O'') then radix_literal 8 r
                else if c = CHR ''0'' \<and> (x = CHR ''b'' \<or> x = CHR ''B'') then radix_literal 2 r
                else decimal_literal t
            | _ \<Rightarrow> decimal_literal t))"

subsection \<open>Untyped values\<close>

text \<open>
  The validators take \<open>any\<close>. The values a parsed sheet or a JSON body holds are modelled:
  \<open>undefined\<close> (an absent field), \<open>null\<close>, booleans, strings, and integer numbers whose
  string form is their decimal numeral (magnitude below \<open>10^21\<close>).
\<close>

datatype jsval = JUndefined | JNull | JBool bool | JNum int | JStr string

fun truthy :: "jsval \<Rightarrow> bool" where
  "truthy JUndefined = False"
| "truthy JNull = False"
| "truthy (JBool b) = b"
| "truthy (JNum n) = (n \<noteq> 0)"
| "truthy (JStr s) = (s \<noteq> [])"

fun show_nat :: "nat \<Rightarrow> string" where
  "show_nat n =
     (if n < 10 then [char_of (48 + n)]
      else show_nat (n div 10) @ [char_of (48 + n mod 10)])"

definition show_int :: "int \<Rightarrow> string" where
  "show_int i = (if i < 0 then CHR ''-'' # show_nat (nat (- i)) else show_nat (nat i))"

text \<open>
  \<open>String(v)\<close>, which is also what a template literal inserts. \<open>v.toString()\<close> agrees with
  it wherever the source calls it: always behind a truthiness test, so never on
  \<open>undefined\<close> or \<open>null\<close>.
\<close>

fun toString :: "jsval \<Rightarrow> string" where
  "toString JUndefined = ''undefined''"
| "toString JNull = ''null''"
| "toString (JBool b) = (if b then ''true'' else ''false'')"
| "toString (JNum n) = show_int n"
| "toString (JStr s) = s"

text \<open>\<open>Number(v)\<close>.\<close>

fun toNumber :: "jsval \<Rightarrow> number" where
  "toNumber JUndefined = NaN"
| "toNumber JNull = Fin 0"
| "toNumber (JBool b) = Fin (if b then 1 else 0)"
| "toNumber (JNum n) = Fin (of_int n)"
| "toNumber (JStr s) = string_to_number s"

section \<open>Similarity scorer\<close>

text \<open>
  \<open>calculateSimilarity\<close> fills a matrix of \<open>str2.length + 1\<close> rows and
  \<open>str1.length + 1\<close> columns. Rows are separate arrays. A cell starts as \<open>null\<close>; every
  cell is written before it is read, so the initial content is immaterial and is \<open>0\<close> here.
\<close>

definition set_cell :: "nat list list \<Rightarrow> nat \<Rightarrow> nat \<Rightarrow> nat \<Rightarrow> nat list list" where
  "set_cell matrix j i v = matrix[j := (matrix ! j)[i := v]]"

definition lev_cell :: "string \<Rightarrow> string \<Rightarrow> nat \<Rightarrow> nat \<Rightarrow> nat list list \<Rightarrow> nat list list" where
  "lev_cell str1 str2 j i matrix =
     (let indicator = (if str1 ! (i - 1) = str2 ! (j - 1) then 0 else 1) in
      set_cell matrix j i
        (min (min (matrix ! j ! (i - 1) + 1) (matrix ! (j - 1) ! i + 1))
             (matrix ! (j - 1) ! (i - 1) + indicator)))"

definition lev_matrix :: "string \<Rightarrow> string \<Rightarrow> nat list list" where
  "lev_matrix str1 str2 =
     (let matrix0 = replicate (length str2 + 1) (replicate (length str1 + 1) 0);
          matrix1 = fold (\<lambda>i m. set_cell m 0 i i) [0..<length str1 + 1] matrix0;
          matrix2 = fold (\<lambda>j m. set_cell m j 0 j) [0..<length str2 + 1] matrix1
      in fold (\<lambda>j m. fold (lev_cell str1 str2 j) [1..<length str1 + 1] m)
              [1..<length str2 + 1] matrix2)"

definition calculateSimilarity :: "string \<Rightarrow> string \<Rightarrow> number" where
  "calculateSimilarity str1 str2 =
     (let distance = lev_matrix str1 str2 ! length str2 ! length str1
      in js_sub (num 1) (js_div (num distance) (num (max (length str1) (length str2)))))"

section \<open>Column mapper\<close>

record ColumnMapping =
  original :: string
  suggested :: string
  confidence :: number

text \<open>The alias table, in the order \<open>Object.entries\<close> lists it (all keys are non-numeric).\<close>

definition expectedMappings :: "(string \<times> string list) list" where
  "expectedMappings =
    [(''CLIENT_ID'', [''CLIENT_ID'', ''client_id'', ''ClientID'', ''id'', ''client_identifier'']),
     (''CLIENT_NAME'', [''CLIENT_NAME'', ''client_name'', ''ClientName'', ''name'', ''company_name'']),
     (''PRIORITY_LEVEL'',
        [''PRIORITY_LEVEL'', ''priority_level'', ''Priority'', ''PriorityLevel'', ''importance'']),
     (''REQUESTED_TASK_IDS'',
        [''REQUESTED_TASK_IDS'', ''requested_task_ids'', ''RequestedTasks'', ''RequestedTaskIDs'',
         ''task_ids'', ''tasks'']),
     (''GROUP_TAG'', [''GROUP_TAG'', ''group_tag'', ''Group'', ''GroupTag'', ''team_tag'']),
     (''WORKER_ID'', [''WORKER_ID'', ''worker_id'', ''WorkerID'', ''employee_id'', ''id'']),
     (''WORKER_NAME'', [''WORKER_NAME'', ''worker_name'', ''WorkerName'', ''name'', ''employee_name'']),
     (''SKILLS'', [''SKILLS'', ''skills'', ''Skills'', ''capabilities'', ''expertise'']),
     (''AVAILABLE_SLOTS'',
        [''AVAILABLE_SLOTS'', ''available_slots'', ''AvailableSlots'', ''availability'', ''slots'']),
     (''MAX_LOAD_PER_PHASE'',
        [''MAX_LOAD_PER_PHASE'', ''max_load_per_phase'', ''MaxLoad'', ''MaxLoadPerPhase'',
         ''maximum_load'', ''capacity'']),
     (''WORKER_GROUP'',
        [''WORKER_GROUP'', ''worker_group'', ''Group'', ''WorkerGroup'', ''team'', ''department'']),
     (''QUALIFICATION_LEVEL'',
        [''QUALIFICATION_LEVEL'', ''qualification_level'', ''Qualification'', ''QualificationLevel'',
         ''qualifications'', ''certifications'']),
     (''TASK_ID'', [''TASK_ID'', ''task_id'', ''TaskID'', ''id'', ''task_identifier'']),
     (''TASK_NAME'', [''TASK_NAME'', ''task_name'', ''TaskName'', ''name'', ''title'']),
     (''CATEGORY'', [''CATEGORY'', ''category'', ''Category'', ''type'', ''task_type'']),
     (''DURATION'', [''DURATION'', ''duration'', ''Duration'', ''time'', ''estimated_hours'']),
     (''REQUIRED_SKILLS'',
        [''REQUIRED_SKILLS'', ''required_skills'', ''RequiredSkills'', ''skills_needed'']),
     (''PREFERRED_PHASES'',
        [''PREFERRED_PHASES'', ''preferred_phases'', ''PreferredPhases'', ''phases'']),
     (''MAX_CONCURRENT'',
        [''MAX_CONCURRENT'', ''max_concurrent'', ''MaxConcurrent'', ''concurrent_limit''])]"

text \<open>\<open>s.toLowerCase().replace(/[_\\s-]/g, '')\<close>.\<close>

definition normalize_header :: "string \<Rightarrow> string" where
  "normalize_header s =
     filter (\<lambda>c. \<not> (c = CHR ''_'' \<or> is_space c \<or> c = CHR ''-'')) (toLowerCase s)"

text \<open>The body of the inner \<open>forEach\<close>: one variant against the running best.\<close>

definition score_variant :: "string \<Rightarrow> string \<Rightarrow> string \<Rightarrow> string \<times> number \<Rightarrow> string \<times> number" where
  "score_variant normalized expected variant st =
     (let bestMatch = fst st; maxScore = snd st;
          score = calculateSimilarity normalized (normalize_header variant)
      in if js_gt score maxScore \<and> js_gt score (Fin (1 / 2))
         then (expected, score) else (bestMatch, maxScore))"

definition best_match :: "string \<Rightarrow> string \<times> number" where
  "best_match normalized =
     fold (\<lambda>entry st. fold (score_variant normalized (fst entry)) (snd entry) st)
          expectedMappings ([], Fin 0)"

definition suggest_column :: "string \<Rightarrow> ColumnMapping list \<Rightarrow> ColumnMapping list" where
  "suggest_column userCol suggestions =
     (let normalized = normalize_header userCol;
          best = best_match normalized;
          bestMatch = fst best; maxScore = snd best
      in if bestMatch \<noteq> []
         then suggestions @ [\<lparr>original = userCol, suggested = bestMatch, confidence = maxScore\<rparr>]
         else suggestions)"

definition suggestColumnMapping :: "string list \<Rightarrow> ColumnMapping list" where
  "suggestColumnMapping userColumns = fold suggest_column userColumns []"

section \<open>Regular expressions\<close>

text \<open>
  The patterns of the source use literals, character classes, grouping, alternation,
  the greedy quantifiers \<open>?\<close>, \<open>*\<close>, \<open>+\<close> and one capturing group each. The matcher
  below is the backtracking matcher of the language: it lists, in the order backtracking
  tries them, the ways a pattern can match at the start of the input, each as the
  remaining input and the text of the group. An iteration of \<open>*\<close> that consumes nothing
  is rejected, as the language does.
\<close>

datatype rx =
    Eps
  | Sym "char \<Rightarrow> bool"
  | Seq rx rx
  | Alt rx rx
  | Star rx
  | Cap rx

type_synonym rx_state = "string \<times> string option"

fun star_iter :: "nat \<Rightarrow> (rx_state \<Rightarrow> rx_state list) \<Rightarrow> rx_state \<Rightarrow> rx_state list" where
  "star_iter 0 f st = [st]"
| "star_iter (Suc n) f st =
     concat (map (\<lambda>st'. if length (fst st') < length (fst st) then star_iter n f st' else [])
                 (f st)) @ [st]"

primrec rx_run :: "rx \<Rightarrow> rx_state \<Rightarrow> rx_state list" where
  "rx_run Eps st = [st]"
| "rx_run (Sym p) st =
     (case fst st of [] \<Rightarrow> [] | c # s \<Rightarrow> if p c then [(s, snd st)] else [])"
| "rx_run (Seq r1 r2) st = concat (map (rx_run r2) (rx_run r1 st))"
| "rx_run (Alt r1 r2) st = rx_run r1 st @ rx_run r2 st"
| "rx_run (Star r) st = star_iter (length (fst st)) (rx_run r) st"
| "rx_run (Cap r) st =
     map (\<lambda>st'. (fst st', Some (take (length (fst st) - length (fst st')) (fst st))))
         (rx_run r st)"

definition Opt :: "rx \<Rightarrow> rx" where
  "Opt r = Alt r Eps"

definition Plus :: "rx \<Rightarrow> rx" where
  "Plus r = Seq r (Star r)"

definition Lit :: "string \<Rightarrow> rx" where
  "Lit s = foldr (\<lambda>c r. Seq (Sym (\<lambda>x. x = c)) r) s Eps"

fun Seqs :: "rx list \<Rightarrow> rx" where
  "Seqs [] = Eps"
| "Seqs [r] = r"
| "Seqs (r # rs) = Seq r (Seqs rs)"

text \<open>
  \<open>s.match(re)\<close> for a pattern without flags: the leftmost position where the pattern
  matches, with the first way backtracking finds there; the result is the text of group 1.
  Every pattern of the source has its group outside any option or alternative, so a match
  always binds it.
\<close>

fun rx_match :: "rx \<Rightarrow> string \<Rightarrow> string option" where
  "rx_match r [] =
     (case rx_run r ([], None) of [] \<Rightarrow> None
      | st # _ \<Rightarrow> Some (case snd st of None \<Rightarrow> [] | Some g \<Rightarrow> g))"
| "rx_match r (c # s) =
     (case rx_run r (c # s, None) of [] \<Rightarrow> rx_match r s
      | st # _ \<Rightarrow> Some (case snd st of None \<Rightarrow> [] | Some g \<Rightarrow> g))"

text \<open>\<open>re.test(s)\<close> for a pattern anchored by \<open>^\<close> and \<open>$\<close>: some way consumes all of \<open>s\<close>.\<close>

definition rx_test_anchored :: "rx \<Rightarrow> string \<Rightarrow> bool" where
  "rx_test_anchored r s = list_ex (\<lambda>st. fst st = []) (rx_run r (s, None))"

definition rx_space :: rx where "rx_space = Sym is_space"
definition rx_digit :: rx where "rx_digit = Sym is_digit"

text \<open>\<open>/priority\\s*(?:level)?\\s*(\\d+)/\<close>\<close>
definition re_priority :: rx where
  "re_priority = Seqs [Lit ''priority'', Star rx_space, Opt (Lit ''level''), Star rx_space,
                       Cap (Plus rx_digit)]"

text \<open>\<open>/name\\s*['"]?([^'"]+)['"]?/\<close>\<close>
definition rx_quote :: rx where
  "rx_quote = Sym (\<lambda>c. c = CHR 0x27 \<or> c = CHR 0x22)"
definition re_name :: rx where
  "re_name = Seqs [Lit ''name'', Star rx_space, Opt rx_quote,
                   Cap (Plus (Sym (\<lambda>c. \<not> (c = CHR 0x27 \<or> c = CHR 0x22)))), Opt rx_quote]"

text \<open>\<open>/(?:requested\\s*)?tasks\\s*([a-z0-9, ]+)/\<close>\<close>
definition re_tasks :: rx where
  "re_tasks = Seqs [Opt (Seq (Lit ''requested'') (Star rx_space)), Lit ''tasks'', Star rx_space,
                    Cap (Plus (Sym (\<lambda>c. is_lower_az c \<or> is_digit c \<or> c = CHR '','' \<or> c = CHR '' '')))]"

text \<open>\<open>/group\\s*([a-z0-9]+)/\<close>\<close>
definition re_group :: rx where
  "re_group = Seqs [Lit ''group'', Star rx_space,
                    Cap (Plus (Sym (\<lambda>c. is_lower_az c \<or> is_digit c)))]"

text \<open>\<open>/skill[s]?\\s*[:\\-]?\\s*([a-z, ]+)/\<close>\<close>
definition rx_names :: rx where
  "rx_names = Cap (Plus (Sym (\<lambda>c. is_lower_az c \<or> c = CHR '','' \<or> c = CHR '' '')))"
definition rx_colon_dash :: rx where
  "rx_colon_dash = Sym (\<lambda>c. c = CHR '':'' \<or> c = CHR ''-'')"
definition re_skill :: rx where
  "re_skill = Seqs [Lit ''skill'', Opt (Lit ''s''), Star rx_space, Opt rx_colon_dash,
                    Star rx_space, rx_names]"

text \<open>\<open>/phase\\s*(\\d+)/\<close>\<close>
definition re_phase :: rx where
  "re_phase = Seqs [Lit ''phase'', Star rx_space, Cap (Plus rx_digit)]"

text \<open>\<open>/(?:max load|load limit)\\s*(?:of)?\\s*(\\d+)/\<close>\<close>
definition re_load :: rx where
  "re_load = Seqs [Alt (Lit ''max load'') (Lit ''load limit''), Star rx_space, Opt (Lit ''of''),
                   Star rx_space, Cap (Plus rx_digit)]"

text \<open>\<open>/worker group\\s*([a-z0-9]+)/\<close>\<close>
definition re_worker_group :: rx where
  "re_worker_group = Seqs [Lit ''worker group'', Star rx_space,
                           Cap (Plus (Sym (\<lambda>c. is_lower_az c \<or> is_digit c)))]"

text \<open>\<open>/duration\\s*(?:more than|>)\\s*(\\d+)/\<close>\<close>
definition re_duration :: rx where
  "re_duration = Seqs [Lit ''duration'', Star rx_space, Alt (Lit ''more than'') (Lit ''>''),
                       Star rx_space, Cap (Plus rx_digit)]"

text \<open>\<open>/phase[s]?\\s*(\\d+(?:-\\d+)?(?:,\\s*\\d+(?:-\\d+)?)*)/\<close>\<close>
definition rx_phase_item :: rx where
  "rx_phase_item = Seq (Plus rx_digit) (Opt (Seq (Lit ''-'') (Plus rx_digit)))"
definition re_phases :: rx where
  "re_phases = Seqs [Lit ''phase'', Opt (Lit ''s''), Star rx_space,
                     Cap (Seq rx_phase_item
                              (Star (Seqs [Lit '','', Star rx_space, rx_phase_item])))]"

text \<open>\<open>/(?:required skill[s]?|skills needed)\\s*[:\\-]?\\s*([a-z, ]+)/\<close>\<close>
definition re_required_skill :: rx where
  "re_required_skill =
     Seqs [Alt (Seq (Lit ''required skill'') (Opt (Lit ''s''))) (Lit ''skills needed''),
           Star rx_space, Opt rx_colon_dash, Star rx_space, rx_names]"

text \<open>\<open>/(?:max concurrent|parallel)\\s*(?:of)?\\s*(\\d+)/\<close>\<close>
definition re_concurrent :: rx where
  "re_concurrent = Seqs [Alt (Lit ''max concurrent'') (Lit ''parallel''), Star rx_space,
                         Opt (Lit ''of''), Star rx_space, Cap (Plus rx_digit)]"

text \<open>\<open>/^[^\\s@]+@[^\\s@]+\\.[^\\s@]+$/\<close>\<close>
definition rx_email_part :: rx where
  "rx_email_part = Plus (Sym (\<lambda>c. \<not> (is_space c \<or> c = CHR ''@'')))"
definition emailRegex :: rx where
  "emailRegex = Seqs [rx_email_part, Lit ''@'', rx_email_part, Lit ''.'', rx_email_part]"

section \<open>Query interpreter\<close>

text \<open>
  \<open>Client\<close>, \<open>Worker\<close> and \<open>Task\<close> declare every field a string, some optional. An object
  is the list of its fields in insertion order; a field that is not there reads as
  \<open>undefined\<close>, here \<open>None\<close>.
\<close>

type_synonym item = "(string \<times> string) list"

definition field :: "item \<Rightarrow> string \<Rightarrow> string option" where
  "field it name = map_of it name"

text \<open>\<open>v && P(v)\<close> for a field \<open>v\<close>: \<open>undefined\<close> and the empty string are falsy.\<close>

definition field_and :: "string option \<Rightarrow> (string \<Rightarrow> bool) \<Rightarrow> bool" where
  "field_and v P = (case v of None \<Rightarrow> False | Some s \<Rightarrow> s \<noteq> [] \<and> P s)"

text \<open>\<open>m && P(m[1])\<close> for the result \<open>m\<close> of a match.\<close>

definition match_and :: "string option \<Rightarrow> (string \<Rightarrow> bool) \<Rightarrow> bool" where
  "match_and m P = (case m of None \<Rightarrow> False | Some g \<Rightarrow> P g)"

text \<open>\<open>list.split(',').some(t => hay.toLowerCase().includes(t.trim().toLowerCase()))\<close>\<close>

definition some_listed :: "string \<Rightarrow> string \<Rightarrow> bool" where
  "some_listed list hay =
     list_ex (\<lambda>t. str_includes (toLowerCase hay) (toLowerCase (trim t))) (split_comma list)"

definition client_filter :: "string \<Rightarrow> item \<Rightarrow> bool" where
  "client_filter lowercaseQuery it =
     (if (str_includes lowercaseQuery ''high priority'' \<or> str_includes lowercaseQuery ''priority'')
         \<and> (let priorityMatch = rx_match re_priority lowercaseQuery;
                 minPriority = (case priorityMatch of None \<Rightarrow> num 4 | Some g \<Rightarrow> parseInt g)
             in field_and (field it ''PriorityLevel'') (\<lambda>p. js_ge (parseInt p) minPriority))
      then True
      else if (str_includes lowercaseQuery ''client name'' \<or> str_includes lowercaseQuery ''name'')
         \<and> (let nameMatch = rx_match re_name lowercaseQuery
             in match_and nameMatch (\<lambda>g. field_and (field it ''ClientName'')
                  (\<lambda>n. str_includes (toLowerCase n) (toLowerCase g))))
      then True
      else if (str_includes lowercaseQuery ''requested tasks'' \<or> str_includes lowercaseQuery ''tasks'')
         \<and> (let tasksMatch = rx_match re_tasks lowercaseQuery
             in match_and tasksMatch (\<lambda>g. field_and (field it ''RequestedTaskIDs'')
                  (\<lambda>ids. some_listed g ids)))
      then True
      else if str_includes lowercaseQuery ''group''
         \<and> (let groupMatch = rx_match re_group lowercaseQuery
             in match_and groupMatch (\<lambda>g. field_and (field it ''GroupTag'')
                  (\<lambda>t. str_includes (toLowerCase t) (toLowerCase g))))
      then True
      else False)"

definition worker_filter :: "string \<Rightarrow> item \<Rightarrow> bool" where
  "worker_filter lowercaseQuery it =
     (if (str_includes lowercaseQuery ''skill'' \<or> str_includes lowercaseQuery ''skills'')
         \<and> (let skillMatch = rx_match re_skill lowercaseQuery
             in match_and skillMatch (\<lambda>g. field_and (field it ''Skills'')
                  (\<lambda>sk. some_listed g sk)))
      then True
      else if (str_includes lowercaseQuery ''available'' \<or> str_includes lowercaseQuery ''slots'')
         \<and> (let phaseMatch = rx_match re_phase lowercaseQuery
             in match_and phaseMatch (\<lambda>g. field_and (field it ''AvailableSlots'')
                  (\<lambda>sl. str_includes sl g))
                \<or> field_and (field it ''AvailableSlots'') (\<lambda>sl. 0 < length sl))
      then True
      else if (str_includes lowercaseQuery ''max load'' \<or> str_includes lowercaseQuery ''load limit'')
         \<and> (let loadMatch = rx_match re_load lowercaseQuery
             in match_and loadMatch (\<lambda>g. field_and (field it ''MaxLoadPerPhase'')
                  (\<lambda>l. js_le (parseInt l) (parseInt g))))
      then True
      else if str_includes lowercaseQuery ''worker group''
         \<and> (let groupMatch = rx_match re_worker_group lowercaseQuery
             in match_and groupMatch (\<lambda>g. field_and (field it ''WorkerGroup'')
                  (\<lambda>w. str_includes (toLowerCase w) (toLowerCase g))))
      then True
      else False)"

text \<open>
  In the task filter the phase rule answers by itself once its pattern matched and the
  task has preferred phases: it returns the outcome of the comparison, true or false.
  \<open>None\<close> means that the rule did not answer and the next rule is tried.
\<close>

definition phase_rule :: "string \<Rightarrow> item \<Rightarrow> bool option" where
  "phase_rule lowercaseQuery it =
     (if str_includes lowercaseQuery ''phase'' \<or> str_includes lowercaseQuery ''preferred phases''
      then (case rx_match re_phases lowercaseQuery of
              None \<Rightarrow> None
            | Some g \<Rightarrow>
                (case field it ''PreferredPhases'' of
                   None \<Rightarrow> None
                 | Some pp \<Rightarrow>
                     if pp = [] then None
                     else (let phasesToMatch = map trim (split_comma g)
                           in Some (list_ex (\<lambda>p. str_includes pp p) phasesToMatch))))
      else None)"

definition task_filter :: "string \<Rightarrow> item \<Rightarrow> bool" where
  "task_filter lowercaseQuery it =
     (if (str_includes lowercaseQuery ''duration more than'' \<or> str_includes lowercaseQuery ''duration >'')
         \<and> (let m = rx_match re_duration lowercaseQuery
             in match_and m (\<lambda>g. field_and (field it ''Duration'')
                  (\<lambda>d. js_gt (parseInt d) (parseInt g))))
      then True
      else (case phase_rule lowercaseQuery it of
              Some answer \<Rightarrow> answer
            | None \<Rightarrow>
      if (str_includes lowercaseQuery ''required skill'' \<or> str_includes lowercaseQuery ''skills needed'')
         \<and> (let skillMatch = rx_match re_required_skill lowercaseQuery
             in match_and skillMatch (\<lambda>g. field_and (field it ''RequiredSkills'')
                  (\<lambda>sk. some_listed g sk)))
      then True
      else if (str_includes lowercaseQuery ''max concurrent'' \<or> str_includes lowercaseQuery ''parallel'')
         \<and> (let concurrentMatch = rx_match re_concurrent lowercaseQuery
             in match_and concurrentMatch (\<lambda>g. field_and (field it ''MaxConcurrent'')
                  (\<lambda>c. js_le (parseInt c) (parseInt g))))
      then True
      else False))"

text \<open>The last statement of the function: the scan over the values of all fields.\<close>

definition generic_scan :: "string \<Rightarrow> item \<Rightarrow> bool" where
  "generic_scan lowercaseQuery it =
     list_ex (\<lambda>v. v \<noteq> [] \<and> str_includes (toLowerCase v) lowercaseQuery) (map snd it)"

definition processNaturalLanguageQuery :: "string \<Rightarrow> item list \<Rightarrow> string \<Rightarrow> item list" where
  "processNaturalLanguageQuery query data dataType =
     (let lowercaseQuery = toLowerCase query in
      if dataType = ''clients'' then filter (client_filter lowercaseQuery) data
      else if dataType = ''workers'' then filter (worker_filter lowercaseQuery) data
      else if dataType = ''tasks'' then filter (task_filter lowercaseQuery) data
      else filter (generic_scan lowercaseQuery) data)"

section \<open>Rule heuristics\<close>

text \<open>\<open>parseInt(v)\<close> for a field: an absent field is first turned into the text \<open>undefined\<close>.\<close>

definition parseInt_field :: "string option \<Rightarrow> number" where
  "parseInt_field v = parseInt (case v of None \<Rightarrow> ''undefined'' | Some s \<Rightarrow> s)"

text \<open>\<open>n || 0\<close>\<close>

definition or_zero :: "number \<Rightarrow> number" where
  "or_zero n = (if n = NaN \<or> n = Fin 0 then Fin 0 else n)"

definition priority_suggestion :: string where
  "priority_suggestion = ''Consider adding priority-based allocation rules for high-priority clients (e.g., Client Priority Level >= 4).''"

definition slots_suggestion :: string where
  "slots_suggestion = ''Workers have limited available slots - consider workload balancing rules based on AvailableSlots.''"

definition groups_suggestion :: string where
  "groups_suggestion = ''Multiple worker groups detected - consider group-based allocation rules (e.g., WorkerGroup 'Sales' can only do 'Sales' tasks).''"

definition long_tasks_suggestion :: string where
  "long_tasks_suggestion = ''Long-duration tasks detected - consider phase-window constraints or sequential allocation.''"

definition concurrent_suggestion :: string where
  "concurrent_suggestion = ''Tasks with concurrent execution limits detected - optimize parallel processing (e.g., MaxConcurrent for specific tasks).''"

definition highPriorityClients :: "item list \<Rightarrow> nat" where
  "highPriorityClients clientData =
     length (filter (\<lambda>c. field_and (field c ''PriorityLevel'') (\<lambda>p. js_ge (parseInt p) (num 4)))
                    clientData)"

definition client_suggestions :: "item list \<Rightarrow> string list" where
  "client_suggestions clientData =
     (if 0 < length clientData then
        (let totalClients = length clientData
         in if js_gt (js_div (num (highPriorityClients clientData)) (num totalClients)) (Fin (3 / 10))
            then [priority_suggestion] else [])
      else [])"

definition worker_suggestions :: "item list \<Rightarrow> string list" where
  "worker_suggestions workerData =
     (if 0 < length workerData then
        (let avgCapacity =
               js_div (fold (\<lambda>w sum. js_add sum (or_zero (parseInt_field (field w ''AvailableSlots''))))
                            workerData (Fin 0))
                      (num (length workerData));
             groups = remdups (filter (\<lambda>g. g \<noteq> None \<and> g \<noteq> Some [])
                                      (map (\<lambda>w. field w ''WorkerGroup'') workerData))
         in (if js_lt avgCapacity (Fin 20) \<and> js_gt avgCapacity (Fin 0) then [slots_suggestion] else [])
            @ (if 1 < length groups then [groups_suggestion] else []))
      else [])"

definition task_suggestions :: "item list \<Rightarrow> string list" where
  "task_suggestions taskData =
     (if 0 < length taskData then
        (let longTasks = length (filter (\<lambda>t. field_and (field t ''Duration'')
                                   (\<lambda>d. js_gt (parseInt d) (Fin 3))) taskData);
             concurrentTasks = length (filter (\<lambda>t. field_and (field t ''MaxConcurrent'')
                                   (\<lambda>c. js_gt (parseInt c) (Fin 1))) taskData)
         in (if 0 < longTasks then [long_tasks_suggestion] else [])
            @ (if 0 < concurrentTasks then [concurrent_suggestion] else []))
      else [])"

definition suggestRules :: "item list \<Rightarrow> item list \<Rightarrow> item list \<Rightarrow> string list" where
  "suggestRules clientData workerData taskData =
     client_suggestions clientData @ worker_suggestions workerData @ task_suggestions taskData"

record RuleDraft =
  rule_type :: string
  condition :: string
  action :: string
  description :: string

definition priority_template :: RuleDraft where
  "priority_template =
     \<lparr>rule_type = ''priority'', condition = ''Client.PriorityLevel >= 4'',
      action = ''allocate_first'', description = ''Allocate high priority clients first''\<rparr>"

definition load_balance_template :: RuleDraft where
  "load_balance_template =
     \<lparr>rule_type = ''load_balance'', condition = ''Worker.AvailableSlots > 0'',
      action = ''distribute_evenly'', description = ''Balance workload across available workers''\<rparr>"

definition skill_match_template :: RuleDraft where
  "skill_match_template =
     \<lparr>rule_type = ''skill_match'', condition = ''Task.RequiredSkills IN Worker.Skills'',
      action = ''assign_qualified_worker'',
      description = ''Match tasks to workers with required skills''\<rparr>"

definition group_allocation_template :: RuleDraft where
  "group_allocation_template =
     \<lparr>rule_type = ''group_allocation'',
      condition = ''Worker.WorkerGroup = '' @ [CHR 0x22] @ ''SpecificGroup'' @ [CHR 0x22],
      action = ''assign_within_group'',
      description = ''Allocate tasks within specific worker groups''\<rparr>"

definition manual_review_template :: "string \<Rightarrow> RuleDraft" where
  "manual_review_template d =
     \<lparr>rule_type = ''custom'', condition = ''true'', action = ''manual_review'', description = d\<rparr>"

definition naturalLanguageToRule :: "string \<Rightarrow> RuleDraft" where
  "naturalLanguageToRule desc =
     (let lowercaseDesc = toLowerCase desc in
      if str_includes lowercaseDesc ''high priority'' \<and> str_includes lowercaseDesc ''first''
      then priority_template
      else if str_includes lowercaseDesc ''balance'' \<and> str_includes lowercaseDesc ''load''
      then load_balance_template
      else if str_includes lowercaseDesc ''skill'' \<and> str_includes lowercaseDesc ''match''
      then skill_match_template
      else if str_includes lowercaseDesc ''group'' \<or> str_includes lowercaseDesc ''team''
      then group_allocation_template
      else manual_review_template desc)"

section \<open>Validation engine\<close>

datatype severity = SevError | SevWarning

record ValidationError =
  row :: nat
  column :: string
  error :: string
  severity :: severity
  suggestion :: "string option"

record Summary =
  totalRows :: nat
  errorCount :: nat
  warningCount :: nat

record ValidationResult =
  isValid :: bool
  errors :: "ValidationError list"
  warnings :: "ValidationError list"
  summary :: Summary

text \<open>A row of \<open>any[]\<close> data is an object; \<open>row[field]\<close> of a missing field is \<open>undefined\<close>.\<close>

type_synonym data_row = "(string \<times> jsval) list"

definition get :: "data_row \<Rightarrow> string \<Rightarrow> jsval" where
  "get r f = (case map_of r f of None \<Rightarrow> JUndefined | Some v \<Rightarrow> v)"

definition validators_required :: "jsval \<Rightarrow> string \<Rightarrow> nat \<Rightarrow> ValidationError option" where
  "validators_required v fieldName rowIndex =
     (if \<not> truthy v \<or> trim (toString v) = [] then
        Some \<lparr>row = rowIndex, column = fieldName, error = fieldName @ '' is required'',
              severity = SevError, suggestion = Some (''Add a value for '' @ fieldName)\<rparr>
      else None)"

text \<open>The callback of \<open>values.forEach\<close> in \<open>duplicates\<close>, on the pair of \<open>errors\<close> and \<open>seen\<close>.\<close>

definition duplicates_step ::
  "string \<Rightarrow> nat \<times> jsval \<Rightarrow> ValidationError list \<times> (string \<rightharpoonup> nat)
     \<Rightarrow> ValidationError list \<times> (string \<rightharpoonup> nat)" where
  "duplicates_step fieldName iv st =
     (let index = fst iv; v = snd iv; errs = fst st; seen = snd st in
      if truthy v \<and> trim (toString v) \<noteq> [] then
        (let key = toLowerCase (toString v) in
         if seen key \<noteq> None then
           (errs @ [\<lparr>row = index, column = fieldName,
                     error = ''Duplicate '' @ fieldName @ '': '' @ toString v,
                     severity = SevError,
                     suggestion = Some (''Make '' @ fieldName @ '' unique or remove duplicate'')\<rparr>],
            seen)
         else (errs, seen(key \<mapsto> index)))
      else (errs, seen))"

definition validators_duplicates :: "jsval list \<Rightarrow> string \<Rightarrow> ValidationError list" where
  "validators_duplicates values fieldName =
     fst (fold (duplicates_step fieldName) (enumerate 0 values) ([], Map.empty))"

text \<open>
  \<open>Date.parse\<close> accepts formats that each engine chooses; it is a parameter of the type
  check, which only consults it for the expected type \<open>date\<close>.
\<close>

definition validators_dataType ::
  "(string \<Rightarrow> number) \<Rightarrow> jsval \<Rightarrow> string \<Rightarrow> string \<Rightarrow> nat \<Rightarrow> ValidationError option" where
  "validators_dataType Date_parse v expectedType fieldName rowIndex =
     (if \<not> truthy v then None
      else if expectedType = ''number'' then
        (if isNaN (toNumber v) then
           Some \<lparr>row = rowIndex, column = fieldName, error = fieldName @ '' must be a number'',
                 severity = SevError,
                 suggestion = Some (''Enter a valid number for '' @ fieldName)\<rparr>
         else None)
      else if expectedType = ''email'' then
        (if \<not> rx_test_anchored emailRegex (toString v) then
           Some \<lparr>row = rowIndex, column = fieldName, error = fieldName @ '' must be a valid email'',
                 severity = SevError,
                 suggestion = Some ''Enter a valid email format (e.g., user@domain.com)''\<rparr>
         else None)
      else if expectedType = ''date'' then
        (if isNaN (Date_parse (toString v)) then
           Some \<lparr>row = rowIndex, column = fieldName, error = fieldName @ '' must be a valid date'',
                 severity = SevError,
                 suggestion = Some ''Enter a valid date format (YYYY-MM-DD)''\<rparr>
         else None)
      else None)"

definition validators_range ::
  "jsval \<Rightarrow> int \<Rightarrow> int \<Rightarrow> string \<Rightarrow> nat \<Rightarrow> ValidationError option" where
  "validators_range v min_v max_v fieldName rowIndex =
     (let numValue = toNumber v in
      if isNaN numValue then None
      else if js_lt numValue (Fin (of_int min_v)) \<or> js_gt numValue (Fin (of_int max_v)) then
        Some \<lparr>row = rowIndex, column = fieldName,
              error = fieldName @ '' must be between '' @ show_int min_v @ '' and '' @ show_int max_v,
              severity = SevWarning,
              suggestion = Some (''Adjust '' @ fieldName @ '' to be within range ''
                                 @ show_int min_v @ ''-'' @ show_int max_v)\<rparr>
      else None)"

text \<open>An element of an array under \<open>join\<close>: \<open>undefined\<close> and \<open>null\<close> give the empty text.\<close>

definition join_item :: "jsval \<Rightarrow> string" where
  "join_item v = (if v = JUndefined \<or> v = JNull then [] else toString v)"

definition validators_reference ::
  "jsval \<Rightarrow> jsval list \<Rightarrow> string \<Rightarrow> nat \<Rightarrow> ValidationError option" where
  "validators_reference v validValues fieldName rowIndex =
     (if \<not> truthy v then None
      else if JStr (toString v) \<notin> set validValues then
        Some \<lparr>row = rowIndex, column = fieldName,
              error = fieldName @ '' references invalid value: '' @ toString v,
              severity = SevError,
              suggestion = Some (''Use one of: '' @ join '', '' (map join_item (take 3 validValues))
                                 @ (if 3 < length validValues then ''...'' else []))\<rparr>
      else None)"

text \<open>\<open>if (error) errors.push(error)\<close>: what one check adds to \<open>errors\<close>.\<close>

definition pushed :: "ValidationError option \<Rightarrow> ValidationError list" where
  "pushed e = (case e of None \<Rightarrow> [] | Some x \<Rightarrow> [x])"

text \<open>The object every entry point returns, built from the collected \<open>errors\<close>.\<close>

definition validation_result :: "ValidationError list \<Rightarrow> nat \<Rightarrow> ValidationResult" where
  "validation_result errs n =
     \<lparr>isValid = (length (filter (\<lambda>e. severity e = SevError) errs) = 0),
      errors = filter (\<lambda>e. severity e = SevError) errs,
      warnings = filter (\<lambda>e. severity e = SevWarning) errs,
      summary = \<lparr>totalRows = n,
                 errorCount = length (filter (\<lambda>e. severity e = SevError) errs),
                 warningCount = length (filter (\<lambda>e. severity e = SevWarning) errs)\<rparr>\<rparr>"

definition client_row_errors :: "(string \<Rightarrow> number) \<Rightarrow> nat \<times> data_row \<Rightarrow> ValidationError list" where
  "client_row_errors Date_parse ir =
     (let index = fst ir; r = snd ir in
      concat (map (\<lambda>f. pushed (validators_required (get r f) f index))
                  [''ClientID'', ''ClientName'', ''PriorityLevel''])
      @ pushed (validators_dataType Date_parse (get r ''PriorityLevel'') ''number'' ''PriorityLevel'' index)
      @ pushed (validators_range (get r ''PriorityLevel'') 1 10 ''PriorityLevel'' index))"

definition validateClientData :: "(string \<Rightarrow> number) \<Rightarrow> data_row list \<Rightarrow> ValidationResult" where
  "validateClientData Date_parse data =
     (let errs = concat (map (client_row_errors Date_parse) (enumerate 0 data))
                 @ validators_duplicates (map (\<lambda>r. get r ''ClientID'') data) ''ClientID''
      in validation_result errs (length data))"

definition worker_row_errors :: "(string \<Rightarrow> number) \<Rightarrow> nat \<times> data_row \<Rightarrow> ValidationError list" where
  "worker_row_errors Date_parse ir =
     (let index = fst ir; r = snd ir in
      concat (map (\<lambda>f. pushed (validators_required (get r f) f index))
                  [''WorkerID'', ''WorkerName'', ''Skills''])
      @ concat (map (\<lambda>f. if truthy (get r f)
                          then pushed (validators_dataType Date_parse (get r f) ''number'' f index)
                          else [])
                    [''AvailableSlots'', ''MaxLoadPerPhase'', ''QualificationLevel''])
      @ (if truthy (get r ''QualificationLevel'')
         then pushed (validators_range (get r ''QualificationLevel'') 1 10 ''QualificationLevel'' index)
         else []))"

definition validateWorkerData :: "(string \<Rightarrow> number) \<Rightarrow> data_row list \<Rightarrow> ValidationResult" where
  "validateWorkerData Date_parse data =
     (let errs = concat (map (worker_row_errors Date_parse) (enumerate 0 data))
                 @ validators_duplicates (map (\<lambda>r. get r ''WorkerID'') data) ''WorkerID''
      in validation_result errs (length data))"

definition task_row_errors :: "(string \<Rightarrow> number) \<Rightarrow> nat \<times> data_row \<Rightarrow> ValidationError list" where
  "task_row_errors Date_parse ir =
     (let index = fst ir; r = snd ir in
      concat (map (\<lambda>f. pushed (validators_required (get r f) f index))
                  [''TaskID'', ''TaskName'', ''Category''])
      @ concat (map (\<lambda>f. if truthy (get r f)
                          then pushed (validators_dataType Date_parse (get r f) ''number'' f index)
                          else [])
                    [''Duration'', ''MaxConcurrent'']))"

definition validateTaskData :: "(string \<Rightarrow> number) \<Rightarrow> data_row list \<Rightarrow> ValidationResult" where
  "validateTaskData Date_parse data =
     (let errs = concat (map (task_row_errors Date_parse) (enumerate 0 data))
                 @ validators_duplicates (map (\<lambda>r. get r ''TaskID'') data) ''TaskID''
      in validation_result errs (length data))"

section \<open>Notions used to state the properties\<close>

subsection \<open>Edit distance\<close>

text \<open>
  The edit distance by its recurrence, on two words read from their last letter
  backwards; \<open>prefix_distance\<close> is the distance between two prefixes, which is what the
  cell in row \<open>j\<close> and column \<open>i\<close> of the matrix holds.
\<close>

fun lev :: "'a list \<Rightarrow> 'a list \<Rightarrow> nat" where
  "lev [] ys = length ys"
| "lev (x # xs) [] = Suc (length xs)"
| "lev (x # xs) (y # ys) =
     min (min (lev xs (y # ys) + 1) (lev (x # xs) ys + 1))
         (lev xs ys + (if x = y then 0 else 1))"

definition prefix_distance :: "string \<Rightarrow> string \<Rightarrow> nat \<Rightarrow> nat \<Rightarrow> nat" where
  "prefix_distance s1 s2 i j = lev (rev (take i s1)) (rev (take j s2))"

definition dims :: "string \<Rightarrow> string \<Rightarrow> nat list list \<Rightarrow> bool" where
  "dims s1 s2 m \<longleftrightarrow>
     length m = length s2 + 1 \<and> (\<forall>j \<le> length s2. length (m ! j) = length s1 + 1)"

text \<open>
  The loop invariant: all rows before \<open>J\<close>, row \<open>J\<close> up to column \<open>I\<close>, and column \<open>0\<close>
  hold prefix distances.
\<close>

definition lev_inv :: "string \<Rightarrow> string \<Rightarrow> nat \<Rightarrow> nat \<Rightarrow> nat list list \<Rightarrow> bool" where
  "lev_inv s1 s2 J I m \<longleftrightarrow>
     dims s1 s2 m \<and>
     (\<forall>j \<le> length s2. \<forall>i \<le> length s1.
        (j < J \<or> (j = J \<and> i \<le> I) \<or> i = 0) \<longrightarrow> m ! j ! i = prefix_distance s1 s2 i j)"

subsection \<open>Column mapping\<close>

text \<open>The alias table as the sequence of (canonical field, variant) pairs the loops visit.\<close>

definition alias_pairs :: "(string \<times> string) list" where
  "alias_pairs = concat (map (\<lambda>entry. map (Pair (fst entry)) (snd entry)) expectedMappings)"

definition score :: "string \<Rightarrow> string \<times> string \<Rightarrow> number" where
  "score header p = calculateSimilarity (normalize_header header) (normalize_header (snd p))"

text \<open>A pair scores maximally for a header when no pair of the table scores higher.\<close>

definition is_max_pair :: "string \<Rightarrow> string \<times> string \<Rightarrow> bool" where
  "is_max_pair header p = list_all (\<lambda>q. js_ge (score header p) (score header q)) alias_pairs"

text \<open>
  What the claim prescribes for one header: take the first maximal pair in table order and
  emit its canonical field with its score if the score exceeds one half.
\<close>

definition mapping_by_maximum :: "string \<Rightarrow> ColumnMapping list" where
  "mapping_by_maximum header =
     (case find (is_max_pair header) alias_pairs of
        None \<Rightarrow> []
      | Some p \<Rightarrow>
          if js_gt (score header p) (Fin (1 / 2))
          then [\<lparr>original = header, suggested = fst p, confidence = score header p\<rparr>]
          else [])"

definition is_mapped :: "string \<Rightarrow> bool" where
  "is_mapped header = (fst (best_match (normalize_header header)) \<noteq> [])"

subsection \<open>A client for the query examples\<close>

definition acme_client :: item where
  "acme_client =
     [(''ClientID'', ''C1''), (''ClientName'', ''Acme Corp''), (''PriorityLevel'', ''3''),
      (''RequestedTaskIDs'', ''T1,T2'')]"

subsection \<open>Duplicates\<close>

text \<open>A value takes part in the duplicate check when it is truthy and not blank.\<close>

definition considered :: "jsval \<Rightarrow> bool" where
  "considered v = (truthy v \<and> trim (toString v) \<noteq> [])"

definition key_lower :: "jsval \<Rightarrow> string" where
  "key_lower v = toLowerCase (toString v)"

definition key_lower_trimmed :: "jsval \<Rightarrow> string" where
  "key_lower_trimmed v = toLowerCase (trim (toString v))"

text \<open>
  The rows, in increasing order, whose value is considered and has the same key as a
  considered value of an earlier row.
\<close>

definition duplicate_rows :: "(jsval \<Rightarrow> string) \<Rightarrow> jsval list \<Rightarrow> nat list" where
  "duplicate_rows key vs =
     filter (\<lambda>i. considered (vs ! i) \<and>
                 list_ex (\<lambda>k. considered (vs ! k) \<and> key (vs ! k) = key (vs ! i)) [0..<i])
            [0..<length vs]"

subsection \<open>Reports\<close>

definition report_consistent :: "ValidationResult \<Rightarrow> bool" where
  "report_consistent r \<longleftrightarrow>
     (isValid r \<longleftrightarrow> errors r = []) \<and>
     errorCount (summary r) = length (errors r) \<and>
     warningCount (summary r) = length (warnings r)"

text \<open>The issues of a report about one field of one row.\<close>

definition issues_at :: "nat \<Rightarrow> string \<Rightarrow> ValidationError list \<Rightarrow> ValidationError list" where
  "issues_at i f es = filter (\<lambda>e. row e = i \<and> column e = f) es"

definition priority_type_issue :: "nat \<Rightarrow> ValidationError" where
  "priority_type_issue i =
     \<lparr>row = i, column = ''PriorityLevel'', error = ''PriorityLevel must be a number'',
      severity = SevError, suggestion = Some ''Enter a valid number for PriorityLevel''\<rparr>"

definition priority_range_issue :: "nat \<Rightarrow> ValidationError" where
  "priority_range_issue i =
     \<lparr>row = i, column = ''PriorityLevel'', error = ''PriorityLevel must be between 1 and 10'',
      severity = SevWarning, suggestion = Some ''Adjust PriorityLevel to be within range 1-10''\<rparr>"

text \<open>A number outside the closed interval from 1 to 10.\<close>

definition outside_1_10 :: "number \<Rightarrow> bool" where
  "outside_1_10 n = (js_lt n (Fin 1) \<or> js_gt n (Fin 10))"

text \<open>Three client rows whose priority levels are \<open>"abc"\<close>, \<open>"12"\<close> and the number 12.\<close>

definition priority_examples :: "data_row list" where
  "priority_examples =
     [[(''ClientID'', JStr ''C1''), (''ClientName'', JStr ''Acme''), (''PriorityLevel'', JStr ''abc'')],
      [(''ClientID'', JStr ''C2''), (''ClientName'', JStr ''Globex''), (''PriorityLevel'', JStr ''12'')],
      [(''ClientID'', JStr ''C3''), (''ClientName'', JStr ''Initech''), (''PriorityLevel'', JNum 12)]]"

subsection \<open>High-priority clients\<close>

text \<open>A client whose \<open>PriorityLevel\<close> is there and reads, by \<open>parseInt\<close>, as a number of at least 4.\<close>

definition qualifies :: "item \<Rightarrow> bool" where
  "qualifies c =
     (case field c ''PriorityLevel'' of
        None \<Rightarrow> False
      | Some p \<Rightarrow> p \<noteq> [] \<and> js_ge (parseInt p) (Fin 4))"

text \<open>Ten clients of which the first \<open>k\<close> have priority level 4 and the others 3.\<close>

definition ten_clients :: "nat \<Rightarrow> item list" where
  "ten_clients k =
     map (\<lambda>i. [(''ClientID'', ''C''), (''PriorityLevel'', if i < k then ''4'' else ''3'')]) [0..<10]"

subsection \<open>Keywords\<close>

text \<open>A description mentions a keyword when it contains it in any letter case.\<close>

definition mentions :: "string \<Rightarrow> string \<Rightarrow> bool" where
  "mentions d kw = str_includes (toLowerCase d) kw"

section \<open>Properties\<close>

subsection \<open>Code units by their bits\<close>

lemma code_unit_Char:
  "code_unit (Char b0 b1 b2 b3 b4 b5 b6 b7) =
     of_bool b0 + 2 * of_bool b1 + 4 * of_bool b2 + 8 * of_bool b3 + 16 * of_bool b4
     + 32 * of_bool b5 + 64 * of_bool b6 + 128 * of_bool b7"
  by (simp add: code_unit_def)

lemma lower_char_bits [code]:
  "lower_char (Char b0 b1 b2 b3 b4 b5 b6 b7) =
     (if \<not> b5 \<and> b6 \<and>
         (if b7 then \<not> (b0 \<and> b1 \<and> b2 \<and> b3 \<and> b4) \<and> \<not> (b0 \<and> b1 \<and> b2 \<and> \<not> b3 \<and> b4)
          else (b0 \<or> b1 \<or> b2 \<or> b3 \<or> b4) \<and> \<not> (b4 \<and> b3 \<and> (b2 \<or> (b1 \<and> b0))))
      then Char b0 b1 b2 b3 b4 True b6 b7 else Char b0 b1 b2 b3 b4 b5 b6 b7)"
  unfolding lower_char_def Let_def code_unit_Char
  by (cases b0; cases b1; cases b2; cases b3; cases b4; cases b5; cases b6; cases b7;
      simp add: char_of_def bit_Suc_0_iff)

lemma is_space_bits [code]:
  "is_space (Char b0 b1 b2 b3 b4 b5 b6 b7) =
     (if b5 then \<not> b0 \<and> \<not> b1 \<and> \<not> b2 \<and> \<not> b3 \<and> \<not> b4 \<and> \<not> b6
      else \<not> b4 \<and> b3 \<and> \<not> b6 \<and> \<not> b7 \<and> (if b2 then \<not> b1 else b0 \<or> b1))"
  unfolding is_space_def code_unit_Char
  by (cases b0; cases b1; cases b2; cases b3; cases b4; cases b5; cases b6; cases b7; simp)

lemma is_digit_bits [code]:
  "is_digit (Char b0 b1 b2 b3 b4 b5 b6 b7) =
     (b4 \<and> b5 \<and> \<not> b6 \<and> \<not> b7 \<and> (b3 \<longrightarrow> \<not> b2 \<and> \<not> b1))"
  unfolding is_digit_def code_unit_Char
  by (cases b0; cases b1; cases b2; cases b3; cases b4; cases b5; cases b6; cases b7; simp)

lemma is_lower_az_bits [code]:
  "is_lower_az (Char b0 b1 b2 b3 b4 b5 b6 b7) =
     (b5 \<and> b6 \<and> \<not> b7 \<and> (b0 \<or> b1 \<or> b2 \<or> b3 \<or> b4) \<and> \<not> (b4 \<and> b3 \<and> (b2 \<or> (b1 \<and> b0))))"
  unfolding is_lower_az_def code_unit_Char
  by (cases b0; cases b1; cases b2; cases b3; cases b4; cases b5; cases b6; cases b7; simp)

subsection \<open>The matrix holds edit distances\<close>

lemma lev_Nil2: "lev xs [] = length xs"
  by (cases xs) auto

lemma lev_sym: "lev xs ys = lev ys xs"
  by (induction xs ys rule: lev.induct) (auto simp: lev_Nil2 min.commute min.left_commute)

lemma lev_refl: "lev xs xs = 0"
  by (induction xs) auto

lemma lev_le: "lev xs ys \<le> max (length xs) (length ys)"
  by (induction xs ys rule: lev.induct) (auto simp: min_le_iff_disj)

lemma nth_set_cell:
  "j < length m \<Longrightarrow> i < length (m ! j) \<Longrightarrow>
   set_cell m j i v ! j' ! i' = (if j' = j \<and> i' = i then v else m ! j' ! i')"
  by (cases "j' = j") (auto simp: set_cell_def nth_list_update)

lemma length_set_cell: "length (set_cell m j i v) = length m"
  by (simp add: set_cell_def)

lemma length_nth_set_cell: "j' < length m \<Longrightarrow> length (set_cell m j i v ! j') = length (m ! j')"
  by (cases "j' = j") (auto simp: set_cell_def nth_list_update)

lemma prefix_distance_0_left: "prefix_distance s1 s2 0 j = min j (length s2)"
  by (simp add: prefix_distance_def)

lemma prefix_distance_0_right: "prefix_distance s1 s2 i 0 = min i (length s1)"
  by (simp add: prefix_distance_def lev_Nil2)

lemma prefix_distance_Suc:
  assumes "i < length s1" "j < length s2"
  shows "prefix_distance s1 s2 (Suc i) (Suc j) =
     min (min (prefix_distance s1 s2 i (Suc j) + 1) (prefix_distance s1 s2 (Suc i) j + 1))
         (prefix_distance s1 s2 i j + (if s1 ! i = s2 ! j then 0 else 1))"
  using assms by (simp add: prefix_distance_def take_Suc_conv_app_nth)

lemma dims_set_cell: "dims s1 s2 m \<Longrightarrow> dims s1 s2 (set_cell m j i v)"
  by (simp add: dims_def length_set_cell length_nth_set_cell)

lemma dims_replicate:
  "dims s1 s2 (replicate (length s2 + 1) (replicate (length s1 + 1) 0))"
  unfolding dims_def by (auto simp: nth_replicate simp del: replicate_Suc)

lemma row0_loop:
  assumes "dims s1 s2 m" "k \<le> length s1 + 1"
  shows "dims s1 s2 (fold (\<lambda>i m. set_cell m 0 i i) [0..<k] m) \<and>
         (\<forall>i < k. fold (\<lambda>i m. set_cell m 0 i i) [0..<k] m ! 0 ! i = i)"
  using assms(2)
proof (induction k)
  case 0
  then show ?case using assms(1) by simp
next
  case (Suc k)
  let ?m = "fold (\<lambda>i m. set_cell m 0 i i) [0..<k] m"
  from Suc have d: "dims s1 s2 ?m" and c: "\<forall>i < k. ?m ! 0 ! i = i" and k: "k \<le> length s1"
    by auto
  from d k have b: "0 < length ?m" "k < length (?m ! 0)"
    by (auto simp: dims_def)
  show ?case
    using d c b by (auto simp: dims_set_cell nth_set_cell less_Suc_eq)
qed

lemma col0_loop:
  assumes "dims s1 s2 m" "k \<le> length s2 + 1" "\<forall>i \<le> length s1. m ! 0 ! i = i"
  shows "dims s1 s2 (fold (\<lambda>j m. set_cell m j 0 j) [0..<k] m) \<and>
         (\<forall>j < k. fold (\<lambda>j m. set_cell m j 0 j) [0..<k] m ! j ! 0 = j) \<and>
         (\<forall>i \<le> length s1. fold (\<lambda>j m. set_cell m j 0 j) [0..<k] m ! 0 ! i = i)"
  using assms(2)
proof (induction k)
  case 0
  then show ?case using assms by simp
next
  case (Suc k)
  let ?m = "fold (\<lambda>j m. set_cell m j 0 j) [0..<k] m"
  from Suc have d: "dims s1 s2 ?m" and c: "\<forall>j < k. ?m ! j ! 0 = j"
    and r: "\<forall>i \<le> length s1. ?m ! 0 ! i = i" and k: "k \<le> length s2"
    by auto
  from d k have b: "k < length ?m" "0 < length (?m ! k)"
    by (auto simp: dims_def)
  show ?case
    using d c r b by (auto simp: dims_set_cell nth_set_cell less_Suc_eq)
qed

lemma lev_invD:
  "lev_inv s1 s2 J I m \<Longrightarrow> j \<le> length s2 \<Longrightarrow> i \<le> length s1 \<Longrightarrow>
   j < J \<or> (j = J \<and> i \<le> I) \<or> i = 0 \<Longrightarrow> m ! j ! i = prefix_distance s1 s2 i j"
  unfolding lev_inv_def by blast

lemma lev_cell_inv:
  assumes "lev_inv s1 s2 (Suc J) I m" "J < length s2" "I < length s1"
  shows "lev_inv s1 s2 (Suc J) (Suc I) (lev_cell s1 s2 (Suc J) (Suc I) m)"
proof -
  from assms have d: "dims s1 s2 m" by (simp add: lev_inv_def)
  with assms have b: "Suc J < length m" "Suc I < length (m ! Suc J)"
    by (auto simp: dims_def)
  have ok: "\<And>j i. j \<le> length s2 \<Longrightarrow> i \<le> length s1 \<Longrightarrow>
              j < Suc J \<or> (j = Suc J \<and> i \<le> I) \<or> i = 0 \<Longrightarrow> m ! j ! i = prefix_distance s1 s2 i j"
    using lev_invD[OF assms(1)] by blast
  have c1: "m ! Suc J ! I = prefix_distance s1 s2 I (Suc J)"
    using ok[of "Suc J" I] assms by simp
  have c2: "m ! J ! Suc I = prefix_distance s1 s2 (Suc I) J"
    using ok[of J "Suc I"] assms by simp
  have c3: "m ! J ! I = prefix_distance s1 s2 I J"
    using ok[of J I] assms by simp
  have new: "lev_cell s1 s2 (Suc J) (Suc I) m = set_cell m (Suc J) (Suc I) (prefix_distance s1 s2 (Suc I) (Suc J))"
    using assms(2,3) by (simp add: lev_cell_def c1 c2 c3 prefix_distance_Suc)
  show ?thesis
    unfolding new lev_inv_def
    using d b ok by (auto simp: dims_set_cell nth_set_cell)
qed

lemma inner_loop:
  assumes "lev_inv s1 s2 (Suc J) 0 m" "J < length s2" "k \<le> length s1"
  shows "lev_inv s1 s2 (Suc J) k (fold (lev_cell s1 s2 (Suc J)) [1..<k + 1] m)"
  using assms(3)
proof (induction k)
  case 0
  then show ?case using assms(1) by simp
next
  case (Suc k)
  then have "lev_inv s1 s2 (Suc J) k (fold (lev_cell s1 s2 (Suc J)) [1..<k + 1] m)" and "k < length s1"
    by auto
  from lev_cell_inv[OF this(1) assms(2) this(2)] show ?case
    by simp
qed

lemma next_row:
  assumes "lev_inv s1 s2 J (length s1) m"
  shows "lev_inv s1 s2 (Suc J) 0 m"
proof -
  have d: "dims s1 s2 m"
    using assms by (simp add: lev_inv_def)
  have "m ! j ! i = prefix_distance s1 s2 i j"
    if "j \<le> length s2" "i \<le> length s1" "j < Suc J \<or> (j = Suc J \<and> i \<le> 0) \<or> i = 0" for j i
  proof -
    from that have "j < J \<or> (j = J \<and> i \<le> length s1) \<or> i = 0"
      by auto
    from lev_invD[OF assms that(1,2) this] show ?thesis .
  qed
  with d show ?thesis
    unfolding lev_inv_def by blast
qed

lemma outer_loop:
  assumes "lev_inv s1 s2 0 (length s1) m" "k \<le> length s2"
  shows "lev_inv s1 s2 k (length s1)
           (fold (\<lambda>j m. fold (lev_cell s1 s2 j) [1..<length s1 + 1] m) [1..<k + 1] m)"
  using assms(2)
proof (induction k)
  case 0
  then show ?case using assms(1) by simp
next
  case (Suc k)
  then have "lev_inv s1 s2 k (length s1)
           (fold (\<lambda>j m. fold (lev_cell s1 s2 j) [1..<length s1 + 1] m) [1..<k + 1] m)"
    and "k < length s2" by auto
  from inner_loop[OF next_row[OF this(1)] this(2) order_refl] show ?case
    by simp
qed

lemma lev_matrix_inv: "lev_inv s1 s2 (length s2) (length s1) (lev_matrix s1 s2)"
proof -
  let ?m0 = "replicate (length s2 + 1) (replicate (length s1 + 1) (0::nat))"
  let ?m1 = "fold (\<lambda>i m. set_cell m 0 i i) [0..<length s1 + 1] ?m0"
  let ?m2 = "fold (\<lambda>j m. set_cell m j 0 j) [0..<length s2 + 1] ?m1"
  from row0_loop[OF dims_replicate order_refl, of s1 s2]
  have d1: "dims s1 s2 ?m1" and r1: "\<forall>i \<le> length s1. ?m1 ! 0 ! i = i"
    by (auto simp: less_Suc_eq_le)
  from col0_loop[OF d1 order_refl r1]
  have d2: "dims s1 s2 ?m2" and c2: "\<forall>j \<le> length s2. ?m2 ! j ! 0 = j"
    and r2: "\<forall>i \<le> length s1. ?m2 ! 0 ! i = i"
    by (auto simp: less_Suc_eq_le)
  have "lev_inv s1 s2 0 (length s1) ?m2"
    unfolding lev_inv_def using d2 c2 r2 by (auto simp: prefix_distance_0_left prefix_distance_0_right)
  from outer_loop[OF this order_refl] show ?thesis
    by (simp add: lev_matrix_def Let_def)
qed

lemma lev_matrix_distance:
  "lev_matrix s1 s2 ! length s2 ! length s1 = lev (rev s1) (rev s2)"
  using lev_invD[OF lev_matrix_inv[of s1 s2], of "length s2" "length s1"] by (simp add: prefix_distance_def)

lemma calculateSimilarity_eq:
  "calculateSimilarity s1 s2 =
     js_sub (num 1) (js_div (num (lev (rev s1) (rev s2))) (num (max (length s1) (length s2))))"
  by (simp add: calculateSimilarity_def lev_matrix_distance)

lemma calculateSimilarity_Fin:
  assumes "s1 \<noteq> [] \<or> s2 \<noteq> []"
  shows "calculateSimilarity s1 s2 =
           Fin (1 - of_nat (lev (rev s1) (rev s2)) / of_nat (max (length s1) (length s2)))"
  using assms by (auto simp: calculateSimilarity_eq js_sub_def num_def)

lemma similarity_bounds:
  assumes "s1 \<noteq> [] \<or> s2 \<noteq> []"
  shows "0 \<le> (1::rat) - of_nat (lev (rev s1) (rev s2)) / of_nat (max (length s1) (length s2))"
    and "(1::rat) - of_nat (lev (rev s1) (rev s2)) / of_nat (max (length s1) (length s2)) \<le> 1"
proof -
  let ?d = "lev (rev s1) (rev s2)" and ?m = "max (length s1) (length s2)"
  have m: "0 < ?m" using assms by (auto simp: less_max_iff_disj)
  have "?d \<le> ?m" using lev_le[of "rev s1" "rev s2"] by simp
  then have "(of_nat ?d :: rat) \<le> of_nat ?m"
    by (simp only: of_nat_le_iff)
  with m have "(of_nat ?d :: rat) / of_nat ?m \<le> 1"
    by (simp add: divide_le_eq_1)
  then show "0 \<le> (1::rat) - of_nat ?d / of_nat ?m" by simp
  show "(1::rat) - of_nat ?d / of_nat ?m \<le> 1" by simp
qed

text \<open>
  C3 (as amended). Whenever at least one of the two strings is non-empty the similarity is
  a number between 0 and 1; a non-empty string has similarity 1 with itself; the similarity
  of \<open>a\<close> and \<open>b\<close> is the value of the similarity of \<open>b\<close> and \<open>a\<close>; and two empty
  strings give \<open>NaN\<close>, the quotient of zero by zero.
\<close>

theorem calculateSimilarity_properties:
  "(a \<noteq> [] \<or> b \<noteq> [] \<longrightarrow> (\<exists>r. calculateSimilarity a b = Fin r \<and> 0 \<le> r \<and> r \<le> 1))
   \<and> (a \<noteq> [] \<longrightarrow> calculateSimilarity a a = Fin 1)
   \<and> calculateSimilarity a b = calculateSimilarity b a
   \<and> calculateSimilarity [] [] = NaN"
proof (intro conjI impI)
  assume ne: "a \<noteq> [] \<or> b \<noteq> []"
  show "\<exists>r. calculateSimilarity a b = Fin r \<and> 0 \<le> r \<and> r \<le> 1"
    using calculateSimilarity_Fin[OF ne] similarity_bounds[OF ne] by blast
next
  assume "a \<noteq> []"
  then show "calculateSimilarity a a = Fin 1"
    by (simp add: calculateSimilarity_Fin lev_refl)
next
  show "calculateSimilarity a b = calculateSimilarity b a"
    by (simp add: calculateSimilarity_eq lev_sym[of "rev a" "rev b"] max.commute)
next
  show "calculateSimilarity [] [] = NaN"
    by (simp add: calculateSimilarity_eq js_sub_def num_def)
qed

theorem calculateSimilarity_properties_witness:
  "''kitten'' \<noteq> [] \<and> ''sitting'' \<noteq> []
   \<and> calculateSimilarity ''kitten'' ''sitting'' = Fin (4 / 7)
   \<and> calculateSimilarity ''sitting'' ''kitten'' = Fin (4 / 7)
   \<and> calculateSimilarity ''kitten'' ''kitten'' = Fin 1"
proof -
  have v: "calculateSimilarity ''kitten'' ''sitting'' = Fin (4 / 7)"
    by code_simp
  show ?thesis
    using calculateSimilarity_properties[of "''kitten''" "''sitting''"] v by simp
qed

text \<open>
  C3 as stated fails on two empty strings: the result is \<open>NaN\<close>, which is not 1 and does
  not lie between 0 and 1.
\<close>

theorem calculateSimilarity_empty_counterexample:
  "calculateSimilarity [] [] \<noteq> Fin 1
   \<and> \<not> (js_ge (calculateSimilarity [] []) (Fin 0) \<and> js_le (calculateSimilarity [] []) (Fin 1))"
  by (simp add: calculateSimilarity_eq js_sub_def num_def js_le_def)

subsection \<open>Reports\<close>

lemma validation_result_consistent: "report_consistent (validation_result errs n)"
  by (simp add: report_consistent_def validation_result_def)

text \<open>
  C2. For every list of rows, the report of each of the three entry points is valid
  exactly when it has no errors, and its summary counts are the lengths of its error and
  warning sequences.
\<close>

theorem validate_reports_consistent:
  "report_consistent (validateClientData Date_parse R)
   \<and> report_consistent (validateWorkerData Date_parse R)
   \<and> report_consistent (validateTaskData Date_parse R)"
  by (simp add: validateClientData_def validateWorkerData_def validateTaskData_def
        validation_result_consistent)

theorem validate_reports_consistent_witness:
  "report_consistent (validateClientData (\<lambda>s. NaN) [[(''ClientID'', JStr ''C1'')]])
   \<and> errorCount (summary (validateClientData (\<lambda>s. NaN) [[(''ClientID'', JStr ''C1'')]])) = 2
   \<and> isValid (validateClientData (\<lambda>s. NaN) [[(''ClientID'', JStr ''C1'')]]) = False"
proof -
  have "errorCount (summary (validateClientData (\<lambda>s. NaN) [[(''ClientID'', JStr ''C1'')]])) = 2"
    by code_simp
  moreover have "isValid (validateClientData (\<lambda>s. NaN) [[(''ClientID'', JStr ''C1'')]]) = False"
    by code_simp
  ultimately show ?thesis
    using validate_reports_consistent[of "\<lambda>s. NaN" "[[(''ClientID'', JStr ''C1'')]]"] by simp
qed

subsection \<open>Reference check\<close>

text \<open>
  C8 (as amended). The reference check returns no issue for an absent value, \<open>undefined\<close>,
  and for every other falsy value. For a truthy value whose string form is not in the
  allowed list it returns one issue of severity error, whose suggestion lists the first
  three allowed values, followed by an ellipsis exactly when the list has more than three
  values; when the string form is in the list it returns no issue.
\<close>

theorem reference_check:
  "(v = JUndefined \<longrightarrow> validators_reference v allowed f i = None)
   \<and> (\<not> truthy v \<longrightarrow> validators_reference v allowed f i = None)
   \<and> (truthy v \<and> JStr (toString v) \<in> set allowed \<longrightarrow>
        validators_reference v allowed f i = None)
   \<and> (truthy v \<and> JStr (toString v) \<notin> set allowed \<longrightarrow>
        (\<exists>e. validators_reference v allowed f i = Some e
            \<and> severity e = SevError \<and> row e = i \<and> column e = f
            \<and> suggestion e =
                Some (''Use one of: '' @ join '', '' (map join_item (take 3 allowed))
                      @ (if 3 < length allowed then ''...'' else []))))"
  by (simp add: validators_reference_def)

theorem reference_check_witness:
  "truthy (JStr ''x'')
   \<and> JStr (toString (JStr ''x'')) \<notin> set (map JStr [''a'', ''b'', ''c'', ''d''])
   \<and> (\<exists>e. validators_reference (JStr ''x'') (map JStr [''a'', ''b'', ''c'', ''d'']) ''Skills'' 0 = Some e
          \<and> severity e = SevError
          \<and> suggestion e = Some ''Use one of: a, b, c...'')
   \<and> validators_reference JUndefined (map JStr [''a'', ''b'', ''c'', ''d'']) ''Skills'' 0 = None
   \<and> (\<exists>e. validators_reference (JStr ''x'') (map JStr [''a'', ''b'', ''c'']) ''Skills'' 0 = Some e
          \<and> suggestion e = Some ''Use one of: a, b, c'')"
  using reference_check[of "JStr ''x''" "map JStr [''a'', ''b'', ''c'']" "''Skills''" 0]
    reference_check[of "JStr ''x''" "map JStr [''a'', ''b'', ''c'', ''d'']" "''Skills''" 0]
    reference_check[of JUndefined "map JStr [''a'', ''b'', ''c'', ''d'']" "''Skills''" 0]
  by (auto simp: join_item_def)

text \<open>
  C8 as stated fails for a value that is present and falsy: the number \<open>0\<close> and the
  boolean \<open>false\<close> have the string forms \<open>0\<close> and \<open>false\<close>, which are not among the
  allowed values, yet the check returns no issue.
\<close>

theorem reference_falsy_counterexample:
  "toString (JNum 0) = ''0''
   \<and> JStr (toString (JNum 0)) \<notin> set [JStr ''a'', JStr ''b'']
   \<and> validators_reference (JNum 0) [JStr ''a'', JStr ''b''] ''Skills'' 0 = None
   \<and> toString (JBool False) = ''false''
   \<and> JStr (toString (JBool False)) \<notin> set [JStr ''a'', JStr ''b'']
   \<and> validators_reference (JBool False) [JStr ''a'', JStr ''b''] ''Skills'' 0 = None"
proof -
  have z: "toString (JNum 0) = ''0''"
    by code_simp
  show ?thesis
    unfolding z by (simp add: validators_reference_def)
qed

subsection \<open>Rule templates\<close>

text \<open>
  C9. \<open>naturalLanguageToRule\<close> is total and returns one of five shapes: the four fixed
  templates, chosen by the keywords the description mentions in any letter case, the
  earlier template winning, or else the manual-review template, which has type
  \<open>custom\<close>, condition \<open>true\<close>, action \<open>manual_review\<close> and echoes the description.
\<close>

theorem naturalLanguageToRule_closed:
  "naturalLanguageToRule d \<in>
     {priority_template, load_balance_template, skill_match_template,
      group_allocation_template, manual_review_template d}
   \<and> (mentions d ''high priority'' \<and> mentions d ''first''
        \<longrightarrow> naturalLanguageToRule d = priority_template)
   \<and> (\<not> (mentions d ''high priority'' \<and> mentions d ''first'')
        \<and> mentions d ''balance'' \<and> mentions d ''load''
        \<longrightarrow> naturalLanguageToRule d = load_balance_template)
   \<and> (\<not> (mentions d ''high priority'' \<and> mentions d ''first'')
        \<and> \<not> (mentions d ''balance'' \<and> mentions d ''load'')
        \<and> mentions d ''skill'' \<and> mentions d ''match''
        \<longrightarrow> naturalLanguageToRule d = skill_match_template)
   \<and> (\<not> (mentions d ''high priority'' \<and> mentions d ''first'')
        \<and> \<not> (mentions d ''balance'' \<and> mentions d ''load'')
        \<and> \<not> (mentions d ''skill'' \<and> mentions d ''match'')
        \<and> (mentions d ''group'' \<or> mentions d ''team'')
        \<longrightarrow> naturalLanguageToRule d = group_allocation_template)
   \<and> (\<not> (mentions d ''high priority'' \<and> mentions d ''first'')
        \<and> \<not> (mentions d ''balance'' \<and> mentions d ''load'')
        \<and> \<not> (mentions d ''skill'' \<and> mentions d ''match'')
        \<and> \<not> (mentions d ''group'' \<or> mentions d ''team'')
        \<longrightarrow> naturalLanguageToRule d =
              \<lparr>rule_type = ''custom'', condition = ''true'', action = ''manual_review'',
               description = d\<rparr>)"
  by (simp add: naturalLanguageToRule_def mentions_def manual_review_template_def Let_def)

theorem naturalLanguageToRule_closed_witness:
  "mentions ''Please BALANCE the Load'' ''balance'' \<and> mentions ''Please BALANCE the Load'' ''load''
   \<and> mentions ''Please BALANCE the Load'' ''high priority'' = False
   \<and> naturalLanguageToRule ''Please BALANCE the Load'' = load_balance_template
   \<and> naturalLanguageToRule ''do something'' =
        \<lparr>rule_type = ''custom'', condition = ''true'', action = ''manual_review'',
         description = ''do something''\<rparr>"
proof -
  have a: "mentions ''Please BALANCE the Load'' ''balance''"
    and b: "mentions ''Please BALANCE the Load'' ''load''"
    and c: "mentions ''Please BALANCE the Load'' ''high priority'' = False"
    by code_simp+
  have d: "mentions ''do something'' ''high priority'' = False"
    "mentions ''do something'' ''balance'' = False"
    "mentions ''do something'' ''skill'' = False"
    "mentions ''do something'' ''group'' = False"
    "mentions ''do something'' ''team'' = False"
    by code_simp+
  show ?thesis
    using naturalLanguageToRule_closed[of "''Please BALANCE the Load''"]
      naturalLanguageToRule_closed[of "''do something''"] a b c d
    by simp
qed

subsection \<open>Priority suggestion\<close>

lemma highPriorityClients_qualifies:
  "highPriorityClients cs = length (filter qualifies cs)"
proof -
  have "(\<lambda>c. field_and (field c ''PriorityLevel'') (\<lambda>p. js_ge (parseInt p) (num 4))) = qualifies"
    by (simp add: fun_eq_iff qualifies_def field_and_def num_def)
  then show ?thesis
    by (simp add: highPriorityClients_def)
qed

lemma priority_not_worker: "priority_suggestion \<notin> set (worker_suggestions ws)"
  by (simp add: worker_suggestions_def Let_def priority_suggestion_def slots_suggestion_def
        groups_suggestion_def)

lemma priority_not_task: "priority_suggestion \<notin> set (task_suggestions ts)"
  by (simp add: task_suggestions_def Let_def priority_suggestion_def long_tasks_suggestion_def
        concurrent_suggestion_def)

text \<open>
  C7. For a non-empty client list the priority-allocation suggestion is among the
  suggestions exactly when the fraction of clients whose \<open>PriorityLevel\<close> is there and
  reads (by \<open>parseInt\<close>) as a number of at least 4 exceeds three tenths.
\<close>

theorem priority_suggestion_iff:
  assumes "clientData \<noteq> []"
  shows "priority_suggestion \<in> set (suggestRules clientData workerData taskData)
         \<longleftrightarrow> (3::rat) / 10 < of_nat (length (filter qualifies clientData))
                                / of_nat (length clientData)"
  using assms
  by (simp add: suggestRules_def priority_not_worker priority_not_task client_suggestions_def
        Let_def num_def highPriorityClients_qualifies)

theorem priority_suggestion_iff_witness:
  "ten_clients 4 \<noteq> [] \<and> length (filter qualifies (ten_clients 4)) = 4
   \<and> priority_suggestion \<in> set (suggestRules (ten_clients 4) [] [])
   \<and> length (filter qualifies (ten_clients 2)) = 2
   \<and> priority_suggestion \<notin> set (suggestRules (ten_clients 2) [] [])"
proof -
  have n: "ten_clients 4 \<noteq> []" "ten_clients 2 \<noteq> []"
    by code_simp+
  have l: "length (ten_clients 4) = 10" "length (ten_clients 2) = 10"
    by code_simp+
  have q: "length (filter qualifies (ten_clients 4)) = 4" "length (filter qualifies (ten_clients 2)) = 2"
    by code_simp+
  show ?thesis
    using priority_suggestion_iff[OF n(1), of "[]" "[]"] priority_suggestion_iff[OF n(2), of "[]" "[]"]
      n l q by simp
qed

subsection \<open>Duplicate check\<close>

lemma duplicates_step_rows:
  assumes "\<forall>key. (seen key \<noteq> None) = (\<exists>k<length ps. considered (ps ! k) \<and> key_lower (ps ! k) = key)"
  shows "map row (fst (fold (duplicates_step f) (enumerate (length ps) vs) (errs, seen))) =
         map row errs @
         filter (\<lambda>i. considered ((ps @ vs) ! i) \<and>
                     (\<exists>k<i. considered ((ps @ vs) ! k) \<and> key_lower ((ps @ vs) ! k) = key_lower ((ps @ vs) ! i)))
                [length ps..<length ps + length vs]"
  using assms
proof (induction vs arbitrary: ps errs seen)
  case Nil
  then show ?case by simp
next
  case (Cons v vs)
  let ?n = "length ps"
  let ?st = "duplicates_step f (?n, v) (errs, seen)"
  have seen_iff: "(seen (key_lower v) \<noteq> None) =
        (\<exists>k<?n. considered ((ps @ v # vs) ! k) \<and> key_lower ((ps @ v # vs) ! k) = key_lower v)"
    using Cons.prems by (auto simp: nth_append)
  have inv: "\<forall>key. (snd ?st key \<noteq> None) =
        (\<exists>k<length (ps @ [v]). considered ((ps @ [v]) ! k) \<and> key_lower ((ps @ [v]) ! k) = key)"
  proof
    fix key
    show "(snd ?st key \<noteq> None) =
        (\<exists>k<length (ps @ [v]). considered ((ps @ [v]) ! k) \<and> key_lower ((ps @ [v]) ! k) = key)"
      using Cons.prems
      by (auto simp: duplicates_step_def Let_def considered_def key_lower_def nth_append
            less_Suc_eq)
  qed
  have rows: "map row (fst ?st) =
        map row errs @ (if considered v \<and> seen (key_lower v) \<noteq> None then [?n] else [])"
    by (auto simp: duplicates_step_def Let_def considered_def key_lower_def)
  let ?Q = "\<lambda>i. considered ((ps @ v # vs) ! i) \<and>
              (\<exists>k<i. considered ((ps @ v # vs) ! k) \<and>
                     key_lower ((ps @ v # vs) ! k) = key_lower ((ps @ v # vs) ! i))"
  have head: "?Q ?n \<longleftrightarrow> considered v \<and> seen (key_lower v) \<noteq> None"
    using seen_iff by simp
  have upt: "[?n..<?n + length (v # vs)] = ?n # [Suc ?n..<Suc ?n + length vs]"
    by (simp add: upt_conv_Cons del: upt_Suc)
  have "map row (fst (fold (duplicates_step f) (enumerate ?n (v # vs)) (errs, seen))) =
        map row (fst (fold (duplicates_step f) (enumerate (length (ps @ [v])) vs) (fst ?st, snd ?st)))"
    by simp
  also have "\<dots> = map row (fst ?st) @
         filter (\<lambda>i. considered (((ps @ [v]) @ vs) ! i) \<and>
                     (\<exists>k<i. considered (((ps @ [v]) @ vs) ! k) \<and>
                            key_lower (((ps @ [v]) @ vs) ! k) = key_lower (((ps @ [v]) @ vs) ! i)))
                [length (ps @ [v])..<length (ps @ [v]) + length vs]"
    by (rule Cons.IH[OF inv])
  also have "\<dots> = map row (fst ?st) @ filter ?Q [Suc ?n..<Suc ?n + length vs]"
    by simp
  also have "\<dots> = map row errs @ filter ?Q (?n # [Suc ?n..<Suc ?n + length vs])"
    unfolding rows using head by simp
  finally show ?case
    unfolding upt .
qed

lemma duplicates_step_all:
  assumes "list_all P errs"
    and "\<And>i v. P \<lparr>row = i, column = f, error = ''Duplicate '' @ f @ '': '' @ toString v,
                     severity = SevError,
                     suggestion = Some (''Make '' @ f @ '' unique or remove duplicate'')\<rparr>"
  shows "list_all P (fst (fold (duplicates_step f) xs (errs, seen)))"
  using assms(1)
proof (induction xs arbitrary: errs seen)
  case Nil
  then show ?case by simp
next
  case (Cons x xs)
  have "list_all P (fst (duplicates_step f x (errs, seen)))"
    using Cons.prems assms(2) by (simp add: duplicates_step_def Let_def)
  from Cons.IH[OF this, of "snd (duplicates_step f x (errs, seen))"] show ?case
    by simp
qed

text \<open>
  C4 (as amended). The duplicate check emits exactly one issue, of severity error, for
  each row whose value is truthy and not blank and whose lowercased string form (not
  trimmed) is that of such a value at an earlier row; it emits nothing else, so a first
  occurrence and a blank value are never flagged.
\<close>

theorem duplicates_rows:
  "map row (validators_duplicates vs f) = duplicate_rows key_lower vs
   \<and> list_all (\<lambda>e. severity e = SevError \<and> column e = f) (validators_duplicates vs f)"
proof
  have "map row (validators_duplicates vs f) =
        filter (\<lambda>i. considered (vs ! i) \<and>
                    (\<exists>k<i. considered (vs ! k) \<and> key_lower (vs ! k) = key_lower (vs ! i)))
               [0..<length vs]"
    using duplicates_step_rows[of Map.empty "[]" f vs "[]"]
    by (simp add: validators_duplicates_def)
  also have "\<dots> = duplicate_rows key_lower vs"
    unfolding duplicate_rows_def
    by (rule filter_cong) (auto simp: list_ex_iff)
  finally show "map row (validators_duplicates vs f) = duplicate_rows key_lower vs" .
  show "list_all (\<lambda>e. severity e = SevError \<and> column e = f) (validators_duplicates vs f)"
    unfolding validators_duplicates_def
    by (rule duplicates_step_all) simp_all
qed

theorem duplicates_rows_witness:
  "map row (validators_duplicates [JStr ''A'', JStr ''a'', JStr ''B'', JStr ''A''] ''ClientID'') = [1, 3]
   \<and> map row (validators_duplicates [JStr '' '', JStr '' '', JStr '''', JStr ''''] ''ClientID'') = []"
proof -
  have "duplicate_rows key_lower [JStr ''A'', JStr ''a'', JStr ''B'', JStr ''A''] = [1, 3]"
    by code_simp
  moreover have "duplicate_rows key_lower [JStr '' '', JStr '' '', JStr '''', JStr ''''] = []"
    by code_simp
  ultimately show ?thesis
    using duplicates_rows[of "[JStr ''A'', JStr ''a'', JStr ''B'', JStr ''A'']" "''ClientID''"]
      duplicates_rows[of "[JStr '' '', JStr '' '', JStr '''', JStr '''']" "''ClientID''"]
    by simp
qed

text \<open>
  C4 as stated compares trimmed values. The code trims only to decide whether a value is
  blank: \<open>" A"\<close> and \<open>"A"\<close> have the same trimmed lowercase form, yet row 1 is not
  flagged.
\<close>

theorem duplicates_trimmed_counterexample:
  "duplicate_rows key_lower_trimmed [JStr '' A'', JStr ''A''] = [1]
   \<and> map row (validators_duplicates [JStr '' A'', JStr ''A''] ''ClientID'') = []"
  by code_simp

subsection \<open>Type and range checks on the priority level\<close>

lemma filter_row_concat_enumerate:
  assumes "\<And>k x. list_all (\<lambda>e. row e = k) (g (k, x))"
  shows "filter (\<lambda>e. row e = i \<and> P e) (concat (map g (enumerate n xs))) =
         (if n \<le> i \<and> i < n + length xs then filter P (g (i, xs ! (i - n))) else [])"
proof (induction xs arbitrary: n)
  case Nil
  then show ?case by auto
next
  case (Cons x xs)
  have hd_eq: "filter (\<lambda>e. row e = i \<and> P e) (g (n, x)) = (if i = n then filter P (g (n, x)) else [])"
    using assms[of n x] by (auto simp: list_all_iff filter_empty_conv intro: filter_cong)
  show ?case
  proof (cases "i = n")
    case True
    then show ?thesis
      using Cons.IH[of "Suc n"] hd_eq by simp
  next
    case False
    then show ?thesis
      using Cons.IH[of "Suc n"] hd_eq by (auto simp: nth_Cons')
  qed
qed

lemma pushed_required_row: "list_all (\<lambda>e. row e = k) (pushed (validators_required v f k))"
  by (simp add: pushed_def validators_required_def)

lemma pushed_dataType_row: "list_all (\<lambda>e. row e = k) (pushed (validators_dataType dp v t f k))"
  by (simp add: pushed_def validators_dataType_def)

lemma pushed_range_row: "list_all (\<lambda>e. row e = k) (pushed (validators_range v a b f k))"
  by (simp add: pushed_def validators_range_def Let_def)

lemma client_row_errors_row: "list_all (\<lambda>e. row e = k) (client_row_errors dp (k, x))"
  by (simp add: client_row_errors_def pushed_required_row pushed_dataType_row pushed_range_row)

lemma show_int_1_10: "show_int 1 = ''1''" "show_int 10 = ''10''"
  by code_simp+

lemma duplicates_not_priority:
  "filter (\<lambda>e. row e = i \<and> column e = ''PriorityLevel'' \<and> Q e)
          (validators_duplicates vs ''ClientID'') = []"
proof -
  have "list_all (\<lambda>e. column e = ''ClientID'') (validators_duplicates vs ''ClientID'')"
    unfolding validators_duplicates_def by (rule duplicates_step_all) simp_all
  then show ?thesis
    by (auto simp: list_all_iff filter_empty_conv)
qed

text \<open>The issues of one severity that client validation reports for the priority of row \<open>i\<close>.\<close>

lemma client_priority_issues:
  assumes "i < length data"
  shows "issues_at i ''PriorityLevel''
           (filter (\<lambda>e. severity e = s)
              (concat (map (client_row_errors dp) (enumerate 0 data))
               @ validators_duplicates (map (\<lambda>r. get r ''ClientID'') data) ''ClientID'')) =
         filter (\<lambda>e. severity e = s)
           (pushed (validators_required (get (data ! i) ''PriorityLevel'') ''PriorityLevel'' i)
            @ pushed (validators_dataType dp (get (data ! i) ''PriorityLevel'') ''number'' ''PriorityLevel'' i)
            @ pushed (validators_range (get (data ! i) ''PriorityLevel'') 1 10 ''PriorityLevel'' i))"
proof -
  let ?P = "\<lambda>e. column e = ''PriorityLevel'' \<and> severity e = s"
  have "issues_at i ''PriorityLevel''
           (filter (\<lambda>e. severity e = s)
              (concat (map (client_row_errors dp) (enumerate 0 data))
               @ validators_duplicates (map (\<lambda>r. get r ''ClientID'') data) ''ClientID'')) =
        filter (\<lambda>e. row e = i \<and> ?P e) (concat (map (client_row_errors dp) (enumerate 0 data)))
        @ filter (\<lambda>e. (row e = i \<and> column e = ''PriorityLevel'') \<and> severity e = s)
            (validators_duplicates (map (\<lambda>r. get r ''ClientID'') data) ''ClientID'')"
    by (simp add: issues_at_def conj_commute conj_left_commute)
  also have "\<dots> = filter ?P (client_row_errors dp (i, data ! i))"
    using assms
    by (simp add: duplicates_not_priority
          filter_row_concat_enumerate[where g = "client_row_errors dp", OF client_row_errors_row])
  also have "\<dots> = filter (\<lambda>e. severity e = s)
           (pushed (validators_required (get (data ! i) ''PriorityLevel'') ''PriorityLevel'' i)
            @ pushed (validators_dataType dp (get (data ! i) ''PriorityLevel'') ''number'' ''PriorityLevel'' i)
            @ pushed (validators_range (get (data ! i) ''PriorityLevel'') 1 10 ''PriorityLevel'' i))"
    by (simp add: client_row_errors_def pushed_def validators_required_def validators_dataType_def
          validators_range_def Let_def)
  finally show ?thesis .
qed

lemma NaN_not_blank:
  assumes "truthy v" "isNaN (toNumber v)"
  shows "trim (toString v) \<noteq> []"
  using assms by (cases v) (auto simp: isNaN_def string_to_number_def Let_def split: if_splits)

text \<open>
  C6 (as amended). In client validation, a \<open>PriorityLevel\<close> that is present (truthy) and
  does not convert to a number gets exactly one error-severity issue on its row, the type
  issue, and no range warning; a \<open>PriorityLevel\<close> that is truthy, not blank, and converts
  to a number outside the interval from 1 to 10 gets exactly one warning-severity issue,
  the range issue, and no error-severity issue.
\<close>

theorem priority_type_and_range:
  assumes "i < length data"
  shows "(truthy (get (data ! i) ''PriorityLevel'')
          \<and> isNaN (toNumber (get (data ! i) ''PriorityLevel''))
          \<longrightarrow> issues_at i ''PriorityLevel'' (errors (validateClientData Date_parse data))
                = [priority_type_issue i]
              \<and> issues_at i ''PriorityLevel'' (warnings (validateClientData Date_parse data)) = [])
       \<and> (truthy (get (data ! i) ''PriorityLevel'')
          \<and> trim (toString (get (data ! i) ''PriorityLevel'')) \<noteq> []
          \<and> \<not> isNaN (toNumber (get (data ! i) ''PriorityLevel''))
          \<and> outside_1_10 (toNumber (get (data ! i) ''PriorityLevel''))
          \<longrightarrow> issues_at i ''PriorityLevel'' (warnings (validateClientData Date_parse data))
                = [priority_range_issue i]
              \<and> issues_at i ''PriorityLevel'' (errors (validateClientData Date_parse data)) = [])"
proof -
  let ?v = "get (data ! i) ''PriorityLevel''"
  have sel: "issues_at i ''PriorityLevel'' (errors (validateClientData Date_parse data)) =
        filter (\<lambda>e. severity e = SevError)
           (pushed (validators_required ?v ''PriorityLevel'' i)
            @ pushed (validators_dataType Date_parse ?v ''number'' ''PriorityLevel'' i)
            @ pushed (validators_range ?v 1 10 ''PriorityLevel'' i))"
    "issues_at i ''PriorityLevel'' (warnings (validateClientData Date_parse data)) =
        filter (\<lambda>e. severity e = SevWarning)
           (pushed (validators_required ?v ''PriorityLevel'' i)
            @ pushed (validators_dataType Date_parse ?v ''number'' ''PriorityLevel'' i)
            @ pushed (validators_range ?v 1 10 ''PriorityLevel'' i))"
    using client_priority_issues[OF assms]
    by (simp_all add: validateClientData_def validation_result_def)
  have nan: "truthy ?v \<Longrightarrow> isNaN (toNumber ?v) \<Longrightarrow>
        validators_required ?v ''PriorityLevel'' i = None
        \<and> validators_dataType Date_parse ?v ''number'' ''PriorityLevel'' i = Some (priority_type_issue i)
        \<and> validators_range ?v 1 10 ''PriorityLevel'' i = None"
    using NaN_not_blank[of ?v]
    by (simp add: validators_required_def validators_dataType_def validators_range_def
          priority_type_issue_def)
  have out: "truthy ?v \<Longrightarrow> trim (toString ?v) \<noteq> [] \<Longrightarrow> \<not> isNaN (toNumber ?v) \<Longrightarrow>
        outside_1_10 (toNumber ?v) \<Longrightarrow>
        validators_required ?v ''PriorityLevel'' i = None
        \<and> validators_dataType Date_parse ?v ''number'' ''PriorityLevel'' i = None
        \<and> validators_range ?v 1 10 ''PriorityLevel'' i = Some (priority_range_issue i)"
    by (simp add: validators_required_def validators_dataType_def validators_range_def
          priority_range_issue_def outside_1_10_def show_int_1_10)
  show ?thesis
    unfolding sel using nan out
    by (auto simp: pushed_def priority_type_issue_def priority_range_issue_def)
qed

theorem priority_type_and_range_witness:
  "issues_at 0 ''PriorityLevel'' (errors (validateClientData (\<lambda>s. NaN) priority_examples))
     = [priority_type_issue 0]
   \<and> issues_at 0 ''PriorityLevel'' (warnings (validateClientData (\<lambda>s. NaN) priority_examples)) = []
   \<and> issues_at 1 ''PriorityLevel'' (warnings (validateClientData (\<lambda>s. NaN) priority_examples))
     = [priority_range_issue 1]
   \<and> issues_at 1 ''PriorityLevel'' (errors (validateClientData (\<lambda>s. NaN) priority_examples)) = []
   \<and> issues_at 2 ''PriorityLevel'' (warnings (validateClientData (\<lambda>s. NaN) priority_examples))
     = [priority_range_issue 2]
   \<and> issues_at 2 ''PriorityLevel'' (errors (validateClientData (\<lambda>s. NaN) priority_examples)) = []"
proof -
  have len: "0 < length priority_examples" "1 < length priority_examples"
    "2 < length priority_examples"
    by code_simp+
  have v0: "get (priority_examples ! 0) ''PriorityLevel'' = JStr ''abc''"
    and v1: "get (priority_examples ! 1) ''PriorityLevel'' = JStr ''12''"
    and v2: "get (priority_examples ! 2) ''PriorityLevel'' = JNum 12"
    by code_simp+
  have n0: "isNaN (toNumber (JStr ''abc''))"
    and n1: "\<not> isNaN (toNumber (JStr ''12''))" "outside_1_10 (toNumber (JStr ''12''))"
      "trim ''12'' \<noteq> []"
    and n2: "outside_1_10 (toNumber (JNum 12))" "trim (toString (JNum 12)) \<noteq> []"
    by code_simp+
  show ?thesis
    using priority_type_and_range[OF len(1), of "\<lambda>s. NaN"]
      priority_type_and_range[OF len(2), of "\<lambda>s. NaN"]
      priority_type_and_range[OF len(3), of "\<lambda>s. NaN"]
    unfolding v0 v1 v2 using n0 n1 n2
    by (simp add: isNaN_def)
qed

text \<open>
  C6 as stated fails for values that convert to 0 while the required check rejects them:
  the number \<open>0\<close> and a blank string both get the range warning together with an
  error-severity issue on the same field.
\<close>

theorem priority_zero_counterexample:
  "outside_1_10 (toNumber (JNum 0))
   \<and> issues_at 0 ''PriorityLevel''
        (warnings (validateClientData (\<lambda>s. NaN)
           [[(''ClientID'', JStr ''C1''), (''ClientName'', JStr ''Acme''), (''PriorityLevel'', JNum 0)]]))
      = [priority_range_issue 0]
   \<and> length (issues_at 0 ''PriorityLevel''
        (errors (validateClientData (\<lambda>s. NaN)
           [[(''ClientID'', JStr ''C1''), (''ClientName'', JStr ''Acme''), (''PriorityLevel'', JNum 0)]])))
      = 1
   \<and> outside_1_10 (toNumber (JStr '' ''))
   \<and> length (issues_at 0 ''PriorityLevel''
        (errors (validateClientData (\<lambda>s. NaN)
           [[(''ClientID'', JStr ''C1''), (''ClientName'', JStr ''Acme''), (''PriorityLevel'', JStr '' '')]])))
      = 1"
  by code_simp

subsection \<open>Column mapper\<close>

lemma fold_entries_pairs:
  "fold (\<lambda>entry st. fold (f (fst entry)) (snd entry) st) xs st =
   fold (\<lambda>p. f (fst p) (snd p)) (concat (map (\<lambda>entry. map (Pair (fst entry)) (snd entry)) xs)) st"
  by (induction xs arbitrary: st) (simp_all add: fold_map comp_def)

lemma best_match_pairs:
  "best_match n = fold (\<lambda>p. score_variant n (fst p) (snd p)) alias_pairs ([], Fin 0)"
  by (simp add: best_match_def alias_pairs_def fold_entries_pairs)

lemma fold_push:
  "fold (\<lambda>h s. s @ g h) hs acc = acc @ concat (map g hs)"
  by (induction hs arbitrary: acc) simp_all

text \<open>The first element of a list that is maximal for a measure.\<close>

lemma first_max_exists:
  fixes sc :: "'a \<Rightarrow> rat"
  assumes "ps \<noteq> []"
  shows "\<exists>p. find (\<lambda>x. \<forall>q\<in>set ps. sc q \<le> sc x) ps = Some p \<and> p \<in> set ps
             \<and> (\<forall>q\<in>set ps. sc q \<le> sc p)"
proof -
  have "Max (sc ` set ps) \<in> sc ` set ps"
    using assms by (intro Max_in) auto
  then obtain p0 where p0: "p0 \<in> set ps" "sc p0 = Max (sc ` set ps)"
    by auto
  have "\<forall>q\<in>set ps. sc q \<le> sc p0"
    using p0 by (auto intro: Max_ge)
  with p0 have "find (\<lambda>x. \<forall>q\<in>set ps. sc q \<le> sc x) ps \<noteq> None"
    by (auto simp: find_None_iff)
  then obtain p where p: "find (\<lambda>x. \<forall>q\<in>set ps. sc q \<le> sc x) ps = Some p"
    by auto
  then have "p \<in> set ps \<and> (\<forall>q\<in>set ps. sc q \<le> sc p)"
    by (auto simp: find_Some_iff)
  with p show ?thesis by blast
qed

lemma first_max_Cons_max:
  fixes sc :: "'a \<Rightarrow> rat"
  assumes "\<forall>q\<in>set ps. sc q \<le> sc p"
  shows "find (\<lambda>x. \<forall>q\<in>set (p # ps). sc q \<le> sc x) (p # ps) = Some p"
  using assms by simp

lemma first_max_Cons_later:
  fixes sc :: "'a \<Rightarrow> rat"
  assumes "q0 \<in> set ps" "sc p < sc q0"
  shows "find (\<lambda>x. \<forall>q\<in>set (p # ps). sc q \<le> sc x) (p # ps) =
         find (\<lambda>x. \<forall>q\<in>set ps. sc q \<le> sc x) ps"
proof -
  have "\<not> (\<forall>q\<in>set (p # ps). sc q \<le> sc p)"
    using assms by (auto simp: not_le)
  moreover have "find (\<lambda>x. \<forall>q\<in>set (p # ps). sc q \<le> sc x) ps =
                 find (\<lambda>x. \<forall>q\<in>set ps. sc q \<le> sc x) ps"
  proof (rule find_cong[OF refl])
    fix x assume "x \<in> set ps"
    show "(\<forall>q\<in>set (p # ps). sc q \<le> sc x) = (\<forall>q\<in>set ps. sc q \<le> sc x)"
      using assms by (auto intro: order_trans[of "sc p" "sc q0"])
  qed
  ultimately show ?thesis by auto
qed

text \<open>One step of the scan, on finite scores.\<close>

lemma score_variant_Fin:
  assumes "calculateSimilarity n (normalize_header (snd p)) = Fin s"
  shows "score_variant n (fst p) (snd p) (bm, Fin m) =
         (if m < s \<and> 1 / 2 < s then (fst p, Fin s) else (bm, Fin m))"
  using assms by (simp add: score_variant_def Let_def)

text \<open>
  The scan over a list of pairs ends with the first pair of maximal score, if that score
  beats the running maximum and one half, and leaves the state as it was otherwise.
\<close>

lemma scan_first_max:
  fixes sc :: "string \<times> string \<Rightarrow> rat"
  assumes "\<forall>p\<in>set ps. calculateSimilarity n (normalize_header (snd p)) = Fin (sc p)"
  shows "fold (\<lambda>p. score_variant n (fst p) (snd p)) ps (bm, Fin m) =
         (case find (\<lambda>x. \<forall>q\<in>set ps. sc q \<le> sc x) ps of
            None \<Rightarrow> (bm, Fin m)
          | Some p \<Rightarrow> if m < sc p \<and> 1 / 2 < sc p then (fst p, Fin (sc p)) else (bm, Fin m))"
  using assms
proof (induction ps arbitrary: bm m)
  case Nil
  then show ?case by simp
next
  case (Cons p ps)
  have sp: "calculateSimilarity n (normalize_header (snd p)) = Fin (sc p)"
    and rest: "\<forall>q\<in>set ps. calculateSimilarity n (normalize_header (snd q)) = Fin (sc q)"
    using Cons.prems by auto
  note step = score_variant_Fin[OF sp]
  note IH = Cons.IH[OF rest]
  show ?case
  proof (cases "\<forall>q\<in>set ps. sc q \<le> sc p")
    case True
    note pmax = first_max_Cons_max[OF True]
    show ?thesis
    proof (cases "ps = []")
      case True
      then show ?thesis by (simp add: step)
    next
      case False
      from first_max_exists[OF False, of sc] obtain r where
        r: "find (\<lambda>x. \<forall>q\<in>set ps. sc q \<le> sc x) ps = Some r" "r \<in> set ps"
        by blast
      with True have le: "sc r \<le> sc p" by blast
      show ?thesis
        unfolding pmax using le by (auto simp: step IH r(1))
    qed
  next
    case False
    then obtain q0 where q0: "q0 \<in> set ps" "sc p < sc q0"
      by (auto simp: not_le)
    note later = first_max_Cons_later[OF q0]
    from q0(1) have ne: "ps \<noteq> []" by auto
    from first_max_exists[OF ne, of sc] obtain r where
      r: "find (\<lambda>x. \<forall>q\<in>set ps. sc q \<le> sc x) ps = Some r" "\<forall>q\<in>set ps. sc q \<le> sc r"
      by blast
    with q0 have lt: "sc p < sc r" by force
    show ?thesis
      unfolding later using lt by (auto simp: step IH r(1))
  qed
qed

lemma alias_pairs_nonempty:
  "list_all (\<lambda>p. normalize_header (snd p) \<noteq> [] \<and> fst p \<noteq> []) alias_pairs"
  by code_simp

lemma best_match_first_max:
  "best_match (normalize_header h) =
     (case find (is_max_pair h) alias_pairs of
        None \<Rightarrow> ([], Fin 0)
      | Some p \<Rightarrow> if js_gt (score h p) (Fin (1 / 2)) then (fst p, score h p) else ([], Fin 0))"
proof -
  define n where "n = normalize_header h"
  define sc :: "string \<times> string \<Rightarrow> rat" where
    "sc = (\<lambda>p. 1 - of_nat (lev (rev n) (rev (normalize_header (snd p))))
                  / of_nat (max (length n) (length (normalize_header (snd p)))))"
  have fin: "\<forall>p\<in>set alias_pairs. calculateSimilarity n (normalize_header (snd p)) = Fin (sc p)"
    using alias_pairs_nonempty by (auto simp: list_all_iff sc_def calculateSimilarity_Fin)
  then have score_eq: "\<And>p. p \<in> set alias_pairs \<Longrightarrow> score h p = Fin (sc p)"
    by (simp add: score_def n_def)
  have find_eq: "find (is_max_pair h) alias_pairs =
                 find (\<lambda>x. \<forall>q\<in>set alias_pairs. sc q \<le> sc x) alias_pairs"
  proof (rule find_cong[OF refl])
    fix x assume "x \<in> set alias_pairs"
    then show "is_max_pair h x = (\<forall>q\<in>set alias_pairs. sc q \<le> sc x)"
      by (auto simp: is_max_pair_def list_all_iff score_eq not_less)
  qed
  show ?thesis
  proof (cases "find (\<lambda>x. \<forall>q\<in>set alias_pairs. sc q \<le> sc x) alias_pairs")
    case None
    then show ?thesis
      unfolding best_match_pairs n_def[symmetric] scan_first_max[OF fin] find_eq by simp
  next
    case (Some p)
    then have "p \<in> set alias_pairs"
      by (auto simp: find_Some_iff)
    then have "score h p = Fin (sc p)"
      by (rule score_eq)
    then show ?thesis
      unfolding best_match_pairs n_def[symmetric] scan_first_max[OF fin] find_eq Some by auto
  qed
qed

lemma alias_pairs_not_Nil: "alias_pairs \<noteq> []"
  by code_simp

lemma max_pair_exists: "find (is_max_pair h) alias_pairs \<noteq> None"
proof -
  define sc :: "string \<times> string \<Rightarrow> rat" where
    "sc = (\<lambda>p. 1 - of_nat (lev (rev (normalize_header h)) (rev (normalize_header (snd p))))
                  / of_nat (max (length (normalize_header h)) (length (normalize_header (snd p)))))"
  have score_eq: "\<And>p. p \<in> set alias_pairs \<Longrightarrow> score h p = Fin (sc p)"
    using alias_pairs_nonempty
    by (auto simp: list_all_iff sc_def score_def calculateSimilarity_Fin)
  from first_max_exists[OF alias_pairs_not_Nil, of sc] obtain p where
    p: "p \<in> set alias_pairs" "\<forall>q\<in>set alias_pairs. sc q \<le> sc p"
    by blast
  then have "is_max_pair h p"
    by (auto simp: is_max_pair_def list_all_iff score_eq not_less)
  with p(1) have "\<exists>x. x \<in> set alias_pairs \<and> is_max_pair h x"
    by blast
  then show ?thesis
    by (simp only: find_None_iff not_not)
qed

lemma suggest_column_by_maximum: "suggest_column h s = s @ mapping_by_maximum h"
proof (cases "find (is_max_pair h) alias_pairs")
  case None
  then show ?thesis
    by (simp add: suggest_column_def Let_def best_match_first_max mapping_by_maximum_def)
next
  case (Some p)
  then have "p \<in> set alias_pairs"
    by (auto simp: find_Some_iff)
  then have "fst p \<noteq> []"
    using alias_pairs_nonempty by (auto simp: list_all_iff)
  then show ?thesis
    by (simp add: suggest_column_def Let_def best_match_first_max mapping_by_maximum_def Some)
qed

lemma best_match_id: "best_match ''id'' = (''CLIENT_ID'', Fin 1)"
  by code_simp

lemma best_match_zz: "best_match ''zz'' = ([], Fin 0)"
  by code_simp

lemma normalize_examples:
  "normalize_header ''ID'' = ''id''" "normalize_header ''zz'' = ''zz''"
  "normalize_header ''i-d'' = ''id''"
  by code_simp+

text \<open>
  C5. For every header the mapper emits what the first maximal pair of the alias table
  prescribes: a mapping exactly when the maximal score exceeds one half, with that score
  as confidence and the canonical field of the first pair, in the order the table is
  visited, that attains it. A maximal pair exists for every header.
\<close>

theorem suggestColumnMapping_by_maximum:
  "suggestColumnMapping headers = concat (map mapping_by_maximum headers)
   \<and> find (is_max_pair header) alias_pairs \<noteq> None"
proof -
  have step: "suggest_column = (\<lambda>h s. s @ mapping_by_maximum h)"
    by (simp add: fun_eq_iff suggest_column_by_maximum)
  have "suggestColumnMapping headers = concat (map mapping_by_maximum headers)"
    unfolding suggestColumnMapping_def step fold_push by simp
  then show ?thesis
    using max_pair_exists by simp
qed

theorem suggestColumnMapping_by_maximum_witness:
  "concat (map mapping_by_maximum [''ID'', ''zz'']) =
     [\<lparr>original = ''ID'', suggested = ''CLIENT_ID'', confidence = Fin 1\<rparr>]"
proof -
  have "suggestColumnMapping [''ID'', ''zz''] =
     [\<lparr>original = ''ID'', suggested = ''CLIENT_ID'', confidence = Fin 1\<rparr>]"
    by (simp add: suggestColumnMapping_def suggest_column_def normalize_examples best_match_id
          best_match_zz)
  then show ?thesis
    using suggestColumnMapping_by_maximum[of "[''ID'', ''zz'']"] by simp
qed

lemma suggest_column_original:
  "suggest_column h s =
     s @ (if is_mapped h
          then [\<lparr>original = h, suggested = fst (best_match (normalize_header h)),
                 confidence = snd (best_match (normalize_header h))\<rparr>]
          else [])"
  by (simp add: suggest_column_def is_mapped_def Let_def)

lemma map_original_concat:
  "map original (concat (map (\<lambda>h. if P h then [\<lparr>original = h, suggested = f h, confidence = g h\<rparr>] else []) hs))
   = filter P hs"
  by (induction hs) simp_all

text \<open>
  C10. The originals of the emitted mappings are the mapped headers, verbatim and in input
  order: the output has at most one mapping per header and its originals form a
  subsequence of the input.
\<close>

theorem suggestColumnMapping_originals:
  "map original (suggestColumnMapping headers) = filter is_mapped headers
   \<and> length (suggestColumnMapping headers) \<le> length headers
   \<and> subseq (map original (suggestColumnMapping headers)) headers"
proof -
  have step: "suggest_column =
        (\<lambda>h s. s @ (if is_mapped h
          then [\<lparr>original = h, suggested = fst (best_match (normalize_header h)),
                 confidence = snd (best_match (normalize_header h))\<rparr>]
          else []))"
    by (simp add: fun_eq_iff suggest_column_original)
  have eq: "map original (suggestColumnMapping headers) = filter is_mapped headers"
    unfolding suggestColumnMapping_def step fold_push by (simp add: map_original_concat)
  have "length (map original (suggestColumnMapping headers)) \<le> length headers"
    unfolding eq by (rule length_filter_le)
  then have len: "length (suggestColumnMapping headers) \<le> length headers"
    by simp
  have "subseq (map original (suggestColumnMapping headers)) headers"
    unfolding eq by (rule subseq_filter_left)
  with eq len show ?thesis by blast
qed

theorem suggestColumnMapping_originals_witness:
  "map original (suggestColumnMapping [''zz'', ''i-d'', ''ID'']) = [''i-d'', ''ID'']"
proof -
  have "filter is_mapped [''zz'', ''i-d'', ''ID''] = [''i-d'', ''ID'']"
    by (simp add: is_mapped_def normalize_examples best_match_id best_match_zz)
  then show ?thesis
    using suggestColumnMapping_originals[of "[''zz'', ''i-d'', ''ID'']"] by simp
qed

subsection \<open>Query interpreter\<close>

text \<open>
  For each of the three kinds the function returns from inside the branch of that kind, so
  the scan over all field values at its end only runs for another kind.
\<close>

lemma kind_branches:
  "processNaturalLanguageQuery q data ''clients'' = filter (client_filter (toLowerCase q)) data"
  "processNaturalLanguageQuery q data ''workers'' = filter (worker_filter (toLowerCase q)) data"
  "processNaturalLanguageQuery q data ''tasks'' = filter (task_filter (toLowerCase q)) data"
  by (simp_all add: processNaturalLanguageQuery_def)

lemma client_filter_no_keyword:
  assumes "\<not> str_includes q ''high priority''" "\<not> str_includes q ''priority''"
    "\<not> str_includes q ''client name''" "\<not> str_includes q ''name''"
    "\<not> str_includes q ''requested tasks''" "\<not> str_includes q ''tasks''"
    "\<not> str_includes q ''group''"
  shows "client_filter q it = False"
  using assms by (simp add: client_filter_def)

text \<open>
  C1 at a failing input. The query \<open>acme\<close> matches no client pattern and the client
  \<open>Acme Corp\<close> contains it in its name: the scan over all field values keeps the client,
  the function returns no record.
\<close>

theorem query_fallback_not_reached:
  "processNaturalLanguageQuery ''acme'' [acme_client] ''clients'' = []
   \<and> filter (generic_scan (toLowerCase ''acme'')) [acme_client] = [acme_client]"
  by code_simp

end
